theory Spec2Isabelle
  imports Complex_Main "HOL-Library.FSet" "HOL-Library.Char_ord" "HOL-Library.List_Lexorder"
begin

section \<open>Data model\<close>


record Symbol =
  sym_name :: string
  sym_kind :: string
  sym_file :: string
  line_start :: int
  line_end :: int
  visibility :: string
  parent :: "string option"
  cfg_features :: "string list"
  sym_doc_lines :: int

record Import =
  imp_path :: string
  imp_file :: string
  imp_line :: int
  imp_alias :: "string option"
  is_glob :: bool

record FeatureGate =
  feature :: string
  gate_file :: string
  gate_line :: int
  gate_kind :: string
  scope :: string

text \<open>
  \<^verbatim>\<open>ModuleInfo.complexity_score\<close> is a float rounded to two decimals that no analysis reads;
  the record keeps the count of decision points it is computed from.
\<close>

record ModuleInfo =
  mod_name :: string
  mod_path :: string
  crate_name :: string
  symbols :: "Symbol list"
  mod_imports :: "Import list"
  feature_gates :: "FeatureGate list"
  mod_lines :: int
  mod_doc_lines :: int
  decision_points :: nat

section \<open>Feature matrix\<close>

text \<open>
  \<^verbatim>\<open>build_feature_matrix(modules, crates, features_by_crate)\<close>; the function reads neither
  \<^verbatim>\<open>crates\<close> nor \<^verbatim>\<open>features_by_crate\<close>. The dictionary \<^verbatim>\<open>modules\<close> is the list of its items
  in iteration order. The \<^verbatim>\<open>defaultdict\<close> \<^verbatim>\<open>matrix\<close> is an association list in insertion order:
  \<^verbatim>\<open>matrix[feature]\<close> creates the default entry when the key is new.
\<close>

record SymbolRef =
  ref_name :: string
  ref_kind :: string
  ref_file :: string
  ref_line :: int

record MatrixEntry =
  crates :: "string fset"
  files :: "string fset"
  gated_symbols :: "SymbolRef list"
  cfg_count :: nat

definition default_entry :: MatrixEntry where
  "default_entry = \<lparr>crates = {||}, files = {||}, gated_symbols = [], cfg_count = 0\<rparr>"

fun matrix_update ::
  "string \<Rightarrow> (MatrixEntry \<Rightarrow> MatrixEntry) \<Rightarrow> (string \<times> MatrixEntry) list
   \<Rightarrow> (string \<times> MatrixEntry) list" where
  "matrix_update f g [] = [(f, g default_entry)]"
| "matrix_update f g ((k, v) # m) =
     (if k = f then (k, g v) # m else (k, v) # matrix_update f g m)"

text \<open>The loop over \<^verbatim>\<open>feature_gates\<close> of one module.\<close>

fun add_gates ::
  "string \<Rightarrow> string \<Rightarrow> FeatureGate list \<Rightarrow> (string \<times> MatrixEntry) list
   \<Rightarrow> (string \<times> MatrixEntry) list" where
  "add_gates crate p [] matrix = matrix"
| "add_gates crate p (gate # gates) matrix =
     add_gates crate p gates
       (matrix_update (feature gate)
          (\<lambda>e. e\<lparr>crates := finsert crate (crates e), files := finsert p (files e),
                 cfg_count := cfg_count e + 1\<rparr>) matrix)"

text \<open>The loop over \<^verbatim>\<open>cfg_features\<close> of one symbol.\<close>

fun add_symbol_features ::
  "string \<Rightarrow> string \<Rightarrow> Symbol \<Rightarrow> string list \<Rightarrow> (string \<times> MatrixEntry) list
   \<Rightarrow> (string \<times> MatrixEntry) list" where
  "add_symbol_features crate p symbol [] matrix = matrix"
| "add_symbol_features crate p symbol (f # fs) matrix =
     add_symbol_features crate p symbol fs
       (matrix_update f
          (\<lambda>e. e\<lparr>crates := finsert crate (crates e), files := finsert p (files e),
                 gated_symbols := gated_symbols e @
                   [\<lparr>ref_name = sym_name symbol, ref_kind = sym_kind symbol,
                     ref_file = p, ref_line = line_start symbol\<rparr>]\<rparr>) matrix)"

fun add_symbols ::
  "string \<Rightarrow> string \<Rightarrow> Symbol list \<Rightarrow> (string \<times> MatrixEntry) list
   \<Rightarrow> (string \<times> MatrixEntry) list" where
  "add_symbols crate p [] matrix = matrix"
| "add_symbols crate p (symbol # rest) matrix =
     add_symbols crate p rest
       (add_symbol_features crate p symbol (cfg_features symbol) matrix)"

fun add_modules ::
  "(string \<times> ModuleInfo) list \<Rightarrow> (string \<times> MatrixEntry) list
   \<Rightarrow> (string \<times> MatrixEntry) list" where
  "add_modules [] matrix = matrix"
| "add_modules ((p, mdl) # rest) matrix =
     add_modules rest
       (add_symbols (crate_name mdl) p (symbols mdl)
          (add_gates (crate_name mdl) p (feature_gates mdl) matrix))"

text \<open>
  The result entry. \<^verbatim>\<open>list(data['crates'])\<close> and \<^verbatim>\<open>list(data['files'])\<close> list a set in an
  order that Python leaves open, so the model keeps the sets; \<^verbatim>\<open>spread\<close> is
  \<^verbatim>\<open>len(data['files'])\<close>, the size of the set.
\<close>

record FeatureUsage =
  usage_crates :: "string fset"
  usage_files :: "string fset"
  usage_symbols :: "SymbolRef list"
  usage_cfg_count :: nat
  spread :: nat

definition to_usage :: "MatrixEntry \<Rightarrow> FeatureUsage" where
  "to_usage data =
     \<lparr>usage_crates = crates data, usage_files = files data,
      usage_symbols = gated_symbols data, usage_cfg_count = cfg_count data,
      spread = fcard (files data)\<rparr>"

definition build_feature_matrix ::
  "(string \<times> ModuleInfo) list \<Rightarrow> (string \<times> FeatureUsage) list" where
  "build_feature_matrix modules =
     map (\<lambda>(f, data). (f, to_usage data)) (add_modules modules [])"

text \<open>A module references a feature by a gate on it or by a symbol annotated with it.\<close>

definition references :: "ModuleInfo \<Rightarrow> string \<Rightarrow> bool" where
  "references mdl f \<longleftrightarrow>
     f \<in> feature ` set (feature_gates mdl)
     \<or> (\<exists>s \<in> set (symbols mdl). f \<in> set (cfg_features s))"

definition referencing_files :: "(string \<times> ModuleInfo) list \<Rightarrow> string \<Rightarrow> string set" where
  "referencing_files modules f = {p. \<exists>mdl. (p, mdl) \<in> set modules \<and> references mdl f}"

section \<open>Shingle sets and their similarity\<close>

text \<open>
  \<^verbatim>\<open>jaccard_similarity(set1, set2)\<close> of \<^verbatim>\<open>scripts/rust_workspace_analyzer.py\<close>.
  A Python \<^verbatim>\<open>set\<close> is finite, so the arguments are finite sets. The result is the Python
  float \<^verbatim>\<open>intersection / union\<close> of two integers: the model keeps the quotient itself.
  The constants \<^verbatim>\<open>0.0\<close> and \<^verbatim>\<open>1.0\<close> are the numbers 0 and 1.
\<close>

definition jaccard_similarity :: "'a fset \<Rightarrow> 'a fset \<Rightarrow> real" where
  "jaccard_similarity set1 set2 =
     (if set1 = {||} \<or> set2 = {||} then 0
      else let intersection = fcard (set1 |\<inter>| set2);
               union = fcard (set1 |\<union>| set2)
           in if union > 0 then real intersection / real union else 0)"

text \<open>The file set that the matrix holds for a feature; empty when the feature has no entry.\<close>

definition files_of :: "(string \<times> MatrixEntry) list \<Rightarrow> string \<Rightarrow> string fset" where
  "files_of m f = (case map_of m f of None \<Rightarrow> {||} | Some e \<Rightarrow> files e)"

text \<open>
  Two modules that reference the feature \<open>x\<close>: \<open>a.rs\<close> by a gate and by a gated function,
  \<open>b.rs\<close> by two gates and no symbol.
\<close>

definition fm_example :: "(string \<times> ModuleInfo) list" where
  "fm_example =
     [(''a.rs'', \<lparr>mod_name = ''a'', mod_path = ''a.rs'', crate_name = ''c'',
        symbols = [\<lparr>sym_name = ''f'', sym_kind = ''fn'', sym_file = ''a.rs'', line_start = 2,
                    line_end = 4, visibility = ''pub'', parent = None,
                    cfg_features = [''x''], sym_doc_lines = 0\<rparr>],
        mod_imports = [],
        feature_gates = [\<lparr>feature = ''x'', gate_file = ''a.rs'', gate_line = 1,
                          gate_kind = ''cfg'', scope = ''pub fn f() {''\<rparr>],
        mod_lines = 4, mod_doc_lines = 0, decision_points = 0\<rparr>),
      (''b.rs'', \<lparr>mod_name = ''b'', mod_path = ''b.rs'', crate_name = ''c'',
        symbols = [],
        mod_imports = [],
        feature_gates = [\<lparr>feature = ''x'', gate_file = ''b.rs'', gate_line = 7,
                          gate_kind = ''cfg_attr'', scope = []\<rparr>,
                         \<lparr>feature = ''x'', gate_file = ''b.rs'', gate_line = 9,
                          gate_kind = ''cfg'', scope = []\<rparr>],
        mod_lines = 10, mod_doc_lines = 0, decision_points = 0\<rparr>)]"

section \<open>Cycle detection\<close>














section \<open>Text and patterns\<close>

text \<open>
  A Python \<^verbatim>\<open>str\<close> is modelled as a \<^typ>\<open>string\<close>, its characters being the code points
  U+0000 to U+00FF. The character classes are those of Python 3 on that range:
  \<^verbatim>\<open>str.isspace\<close> and \<^verbatim>\<open>\s\<close> hold of the same characters, \<^verbatim>\<open>\w\<close> holds of the alphanumeric
  characters and the underscore, \<^verbatim>\<open>\d\<close> of the decimal digits.
\<close>

abbreviation newline :: char where
  "newline \<equiv> CHR 0x0A"

abbreviation dquote :: char where
  "dquote \<equiv> CHR 0x22"

abbreviation squote :: char where
  "squote \<equiv> CHR 0x27"

abbreviation backslash :: char where
  "backslash \<equiv> CHR 0x5C"

definition is_space :: "char \<Rightarrow> bool" where
  "is_space c \<longleftrightarrow>
     (let n = (of_char c :: nat)
      in (9 \<le> n \<and> n \<le> 13) \<or> (28 \<le> n \<and> n \<le> 32) \<or> n = 133 \<or> n = 160)"

definition is_digit :: "char \<Rightarrow> bool" where
  "is_digit c \<longleftrightarrow> (let n = (of_char c :: nat) in 48 \<le> n \<and> n \<le> 57)"

definition is_word :: "char \<Rightarrow> bool" where
  "is_word c \<longleftrightarrow>
     (let n = (of_char c :: nat)
      in (48 \<le> n \<and> n \<le> 57) \<or> (65 \<le> n \<and> n \<le> 90) \<or> n = 95 \<or> (97 \<le> n \<and> n \<le> 122)
         \<or> n = 170 \<or> n = 178 \<or> n = 179 \<or> n = 181 \<or> n = 185 \<or> n = 186
         \<or> (188 \<le> n \<and> n \<le> 190) \<or> (192 \<le> n \<and> n \<le> 214) \<or> (216 \<le> n \<and> n \<le> 246)
         \<or> 248 \<le> n)"

text \<open>
  The regular expressions of the module \<^verbatim>\<open>re\<close>, as far as the patterns of the analyzer use
  them. \<open>Dot\<close> is \<^verbatim>\<open>.\<close> (any character but a newline) and \<open>DotAll\<close> is \<^verbatim>\<open>.\<close> under
  \<^verbatim>\<open>re.DOTALL\<close>; \<open>OneOf\<close> is a set \<^verbatim>\<open>[...]\<close> and \<open>NoneOf\<close> a negated set \<^verbatim>\<open>[^...]\<close>.
\<close>

datatype cclass =
    Lit char
  | Dot
  | DotAll
  | Space
  | Word
  | Digit
  | OneOf "cclass list"
  | NoneOf "cclass list"

fun cmatch :: "cclass \<Rightarrow> char \<Rightarrow> bool" where
  "cmatch (Lit a) c = (c = a)"
| "cmatch Dot c = (c \<noteq> newline)"
| "cmatch DotAll c = True"
| "cmatch Space c = is_space c"
| "cmatch Word c = is_word c"
| "cmatch Digit c = is_digit c"
| "cmatch (OneOf cs) c = (\<exists>x \<in> set cs. cmatch x c)"
| "cmatch (NoneOf cs) c = (\<not> (\<exists>x \<in> set cs. cmatch x c))"

text \<open>
  \<open>Bol\<close> and \<open>Eol\<close> are \<^verbatim>\<open>^\<close> and \<^verbatim>\<open>$\<close> under \<^verbatim>\<open>re.MULTILINE\<close>, \<open>EndOfText\<close> is \<^verbatim>\<open>$\<close> without
  that flag, \<open>WordBoundary\<close> is \<^verbatim>\<open>\b\<close>, \<open>NotBehind c\<close> is \<^verbatim>\<open>(?<![c])\<close>, \<open>NotAhead c\<close> is
  \<^verbatim>\<open>(?![c])\<close>, \<open>Group n r\<close> is the capturing group number \<open>n\<close>. \<open>Star\<close> is the greedy \<^verbatim>\<open>*\<close>
  and \<open>LazyStar\<close> is \<^verbatim>\<open>*?\<close>.
\<close>

datatype regex =
    Atom cclass
  | Eps
  | Seq regex regex
  | Alt regex regex
  | Star regex
  | LazyStar regex
  | Group nat regex
  | Bol
  | Eol
  | EndOfText
  | WordBoundary
  | NotBehind cclass
  | NotAhead cclass

text \<open>The derived forms: \<^verbatim>\<open>r+\<close>, \<^verbatim>\<open>r?\<close>, a literal text, \<^verbatim>\<open>r{n,}\<close>, a sequence.\<close>

definition Plus :: "regex \<Rightarrow> regex" where
  "Plus r = Seq r (Star r)"

definition Opt :: "regex \<Rightarrow> regex" where
  "Opt r = Alt r Eps"

fun Str :: "string \<Rightarrow> regex" where
  "Str [] = Eps"
| "Str [c] = Atom (Lit c)"
| "Str (c # cs) = Seq (Atom (Lit c)) (Str cs)"

fun AtLeast :: "nat \<Rightarrow> regex \<Rightarrow> regex" where
  "AtLeast 0 r = Star r"
| "AtLeast (Suc n) r = Seq r (AtLeast n r)"

fun Seqs :: "regex list \<Rightarrow> regex" where
  "Seqs [] = Eps"
| "Seqs [r] = r"
| "Seqs (r # rs) = Seq r (Seqs rs)"

text \<open>
  A position of the matcher in a text: the character before the position (if any), the
  text from the position on, and the groups captured so far, the latest first.
\<close>

datatype mstate = MState (before: "char option") (rest: string) (groups: "(nat \<times> string) list")

text \<open>
  The backtracking matcher in continuation-passing style: \<open>rmatch r s k\<close> matches \<open>r\<close> at
  the position \<open>s\<close> and hands every position that \<open>r\<close> can end at to \<open>k\<close>, in the order of
  preference of \<^verbatim>\<open>re\<close> (the left alternative first, the greedy star the longest first), until
  \<open>k\<close> accepts one. An iteration of a star that consumes nothing is dropped, as \<^verbatim>\<open>re\<close> does
  to stop the loop.
\<close>

function (sequential) rmatch :: "regex \<Rightarrow> mstate \<Rightarrow> (mstate \<Rightarrow> 'a option) \<Rightarrow> 'a option" where
  "rmatch (Atom c) (MState b t g) k =
     (case t of [] \<Rightarrow> None
      | x # xs \<Rightarrow> if cmatch c x then k (MState (Some x) xs g) else None)"
| "rmatch Eps (MState b t g) k = k (MState b t g)"
| "rmatch (Seq r1 r2) (MState b t g) k =
     rmatch r1 (MState b t g) (\<lambda>s'. rmatch r2 s' k)"
| "rmatch (Alt r1 r2) (MState b t g) k =
     (case rmatch r1 (MState b t g) k of
        Some res \<Rightarrow> Some res
      | None \<Rightarrow> rmatch r2 (MState b t g) k)"
| "rmatch (Star r) (MState b t g) k =
     (case rmatch r (MState b t g)
             (\<lambda>s'. if length (rest s') < length t then rmatch (Star r) s' k else None) of
        Some res \<Rightarrow> Some res
      | None \<Rightarrow> k (MState b t g))"
| "rmatch (LazyStar r) (MState b t g) k =
     (case k (MState b t g) of
        Some res \<Rightarrow> Some res
      | None \<Rightarrow>
          rmatch r (MState b t g)
            (\<lambda>s'. if length (rest s') < length t then rmatch (LazyStar r) s' k else None))"
| "rmatch (Group n r) (MState b t g) k =
     rmatch r (MState b t g)
       (\<lambda>s'. k (MState (before s') (rest s')
                  ((n, take (length t - length (rest s')) t) # groups s')))"
| "rmatch Bol (MState b t g) k =
     (if b = None \<or> b = Some newline then k (MState b t g) else None)"
| "rmatch Eol (MState b t g) k =
     (if t = [] \<or> hd t = newline then k (MState b t g) else None)"
| "rmatch EndOfText (MState b t g) k =
     (if t = [] \<or> t = [newline] then k (MState b t g) else None)"
| "rmatch WordBoundary (MState b t g) k =
     (if (case b of None \<Rightarrow> False | Some c \<Rightarrow> is_word c)
         \<noteq> (case t of [] \<Rightarrow> False | c # cs \<Rightarrow> is_word c)
      then k (MState b t g) else None)"
| "rmatch (NotBehind c) (MState b t g) k =
     (if (case b of None \<Rightarrow> False | Some x \<Rightarrow> cmatch c x) then None else k (MState b t g))"
| "rmatch (NotAhead c) (MState b t g) k =
     (if (case t of [] \<Rightarrow> False | x # xs \<Rightarrow> cmatch c x) then None else k (MState b t g))"
  by pat_completeness auto
termination
  by (relation "measures [\<lambda>(r, s, k). size r, \<lambda>(r, s, k). length (rest s)]") auto

text \<open>The match of a pattern at one position: the position where it ends.\<close>

definition match_at :: "regex \<Rightarrow> char option \<Rightarrow> string \<Rightarrow> mstate option" where
  "match_at r b t = rmatch r (MState b t []) Some"

text \<open>\<^verbatim>\<open>m.group(n)\<close>, \<^verbatim>\<open>None\<close> for a group that took no part in the match.\<close>

definition group :: "mstate \<Rightarrow> nat \<Rightarrow> string option" where
  "group s n = map_of (groups s) n"

text \<open>
  A match as \<^verbatim>\<open>finditer\<close> yields it: \<^verbatim>\<open>m.start()\<close> and the end position with its groups.
\<close>

record rx_match =
  m_start :: nat
  m_end :: mstate

text \<open>
  \<^verbatim>\<open>pattern.finditer(text)\<close>: the matches from left to right, each search starting where
  the last match ended. After an empty match the search resumes one character later;
  no pattern of the analyzer matches the empty text.
\<close>

function finditer_from :: "regex \<Rightarrow> char option \<Rightarrow> string \<Rightarrow> nat \<Rightarrow> rx_match list" where
  "finditer_from r b t pos =
     (case match_at r b t of
        Some s \<Rightarrow>
          \<lparr>m_start = pos, m_end = s\<rparr> #
            (if length (rest s) < length t
             then finditer_from r (before s) (rest s) (pos + (length t - length (rest s)))
             else (case t of [] \<Rightarrow> [] | x # xs \<Rightarrow> finditer_from r (Some x) xs (pos + 1)))
      | None \<Rightarrow> (case t of [] \<Rightarrow> [] | x # xs \<Rightarrow> finditer_from r (Some x) xs (pos + 1)))"
  by pat_completeness auto
termination
  by (relation "measure (\<lambda>(r, b, t, pos). length t)") auto

definition finditer :: "regex \<Rightarrow> string \<Rightarrow> rx_match list" where
  "finditer r text = finditer_from r None text 0"

text \<open>\<^verbatim>\<open>pattern.search(text)\<close> as a truth value, and \<^verbatim>\<open>re.match(pattern, text)\<close> likewise.\<close>

fun search_from :: "regex \<Rightarrow> char option \<Rightarrow> string \<Rightarrow> bool" where
  "search_from r b [] = (match_at r b [] \<noteq> None)"
| "search_from r b (x # xs) =
     (if match_at r b (x # xs) \<noteq> None then True else search_from r (Some x) xs)"

definition search :: "regex \<Rightarrow> string \<Rightarrow> bool" where
  "search r text = search_from r None text"

definition re_match :: "regex \<Rightarrow> string \<Rightarrow> bool" where
  "re_match r text \<longleftrightarrow> match_at r None text \<noteq> None"

text \<open>\<^verbatim>\<open>re.sub(pattern, repl, text)\<close> for a replacement without group references.\<close>

function sub_from :: "regex \<Rightarrow> string \<Rightarrow> char option \<Rightarrow> string \<Rightarrow> string" where
  "sub_from r repl b t =
     (case match_at r b t of
        Some s \<Rightarrow>
          repl @
            (if length (rest s) < length t then sub_from r repl (before s) (rest s)
             else (case t of [] \<Rightarrow> [] | x # xs \<Rightarrow> x # sub_from r repl (Some x) xs))
      | None \<Rightarrow> (case t of [] \<Rightarrow> [] | x # xs \<Rightarrow> x # sub_from r repl (Some x) xs))"
  by pat_completeness auto
termination
  by (relation "measure (\<lambda>(r, repl, b, t). length t)") auto

definition re_sub :: "regex \<Rightarrow> string \<Rightarrow> string \<Rightarrow> string" where
  "re_sub r repl text = sub_from r repl None text"

section \<open>String operations\<close>

text \<open>\<^verbatim>\<open>text.split(sep)\<close> for a separator of one character; the result is never empty.\<close>

fun split_on :: "char \<Rightarrow> string \<Rightarrow> string list" where
  "split_on sep [] = [[]]"
| "split_on sep (x # xs) =
     (if x = sep then [] # split_on sep xs
      else (case split_on sep xs of [] \<Rightarrow> [[x]] | w # ws \<Rightarrow> (x # w) # ws))"

definition lstrip :: "string \<Rightarrow> string" where
  "lstrip s = dropWhile is_space s"

definition strip :: "string \<Rightarrow> string" where
  "strip s = rev (dropWhile is_space (rev (dropWhile is_space s)))"

definition startswith :: "string \<Rightarrow> string \<Rightarrow> bool" where
  "startswith s p \<longleftrightarrow> take (length p) s = p"

text \<open>\<^verbatim>\<open>p in s\<close> for two strings.\<close>

fun contains :: "string \<Rightarrow> string \<Rightarrow> bool" where
  "contains p [] = (p = [])"
| "contains p (x # xs) = (take (length p) (x # xs) = p \<or> contains p xs)"

text \<open>\<^verbatim>\<open>sep.join(items)\<close>.\<close>

fun join :: "string \<Rightarrow> string list \<Rightarrow> string" where
  "join sep [] = []"
| "join sep [x] = x"
| "join sep (x # y # ys) = x @ sep @ join sep (y # ys)"

text \<open>\<^verbatim>\<open>text.count(p)\<close> for a non-empty \<open>p\<close>: the occurrences that do not overlap.\<close>

function count_sub :: "string \<Rightarrow> string \<Rightarrow> nat" where
  "count_sub p t =
     (if p = [] \<or> t = [] then 0
      else if take (length p) t = p then 1 + count_sub p (drop (length p) t)
      else count_sub p (tl t))"
  by pat_completeness auto
termination
  by (relation "measure (\<lambda>(p, t). length t)") auto

text \<open>\<^verbatim>\<open>str(n)\<close> for an integer.\<close>

definition digit_char :: "nat \<Rightarrow> char" where
  "digit_char d = char_of (48 + d)"

fun str_nat :: "nat \<Rightarrow> string" where
  "str_nat n = (if n < 10 then [digit_char n] else str_nat (n div 10) @ [digit_char (n mod 10)])"

definition str_int :: "int \<Rightarrow> string" where
  "str_int i = (if i < 0 then CHR ''-'' # str_nat (nat (- i)) else str_nat (nat i))"

text \<open>
  \<^verbatim>\<open>items[i]\<close> for an index that is not negative: out of range it raises \<^verbatim>\<open>IndexError\<close>.
\<close>

datatype py_error = IndexError

definition py_index :: "'a list \<Rightarrow> nat \<Rightarrow> py_error + 'a" where
  "py_index xs i = (if i < length xs then Inr (xs ! i) else Inl IndexError)"

section \<open>Paths\<close>

text \<open>
  \<^verbatim>\<open>Path(file_path).stem\<close> and \<^verbatim>\<open>Path(file_path).parent.name\<close> of \<^verbatim>\<open>pathlib\<close> for a POSIX path:
  the parts of a path are its components between slashes, the empty ones and the single
  dots left out.
\<close>

definition path_parts :: "string \<Rightarrow> string list" where
  "path_parts p = filter (\<lambda>x. x \<noteq> [] \<and> x \<noteq> ''.'') (split_on CHR ''/'' p)"

definition path_name :: "string \<Rightarrow> string" where
  "path_name p = (if path_parts p = [] then [] else last (path_parts p))"

definition path_parent_name :: "string \<Rightarrow> string" where
  "path_parent_name p =
     (if length (path_parts p) < 2 then [] else path_parts p ! (length (path_parts p) - 2))"

text \<open>\<^verbatim>\<open>name.rfind('.')\<close>.\<close>

definition rfind_dot :: "string \<Rightarrow> int" where
  "rfind_dot name =
     (if CHR ''.'' \<in> set name
      then int (length name) - 1 - int (length (takeWhile (\<lambda>c. c \<noteq> CHR ''.'') (rev name)))
      else - 1)"

definition path_stem :: "string \<Rightarrow> string" where
  "path_stem p =
     (if 0 < rfind_dot (path_name p) \<and> rfind_dot (path_name p) < int (length (path_name p)) - 1
      then take (nat (rfind_dot (path_name p))) (path_name p)
      else path_name p)"

section \<open>Structural extraction\<close>

text \<open>
  The table \<^verbatim>\<open>PATTERNS\<close>, all compiled with \<^verbatim>\<open>re.M\<close>; \<^verbatim>\<open>mod_decl\<close>, which no function reads, is
  left out. The visibility prefix \<^verbatim>\<open>(pub(?:\([^)]*\))?\s+)?\<close> is group 1 of the patterns
  that have it.
\<close>

definition visibility_prefix :: regex where
  "visibility_prefix =
     Opt (Group 1 (Seqs [Str ''pub'',
            Opt (Seqs [Atom (Lit CHR ''(''), Star (Atom (NoneOf [Lit CHR '')''])),
                       Atom (Lit CHR '')'')]),
            Plus (Atom Space)]))"

text \<open>\<^verbatim>\<open>^\s*(?:pub(?:\([^)]*\))?\s+)?use\s+([^;]+);\<close>\<close>

definition pattern_use_stmt :: regex where
  "pattern_use_stmt =
     Seqs [Bol, Star (Atom Space),
       Opt (Seqs [Str ''pub'',
              Opt (Seqs [Atom (Lit CHR ''(''), Star (Atom (NoneOf [Lit CHR '')''])),
                         Atom (Lit CHR '')'')]),
              Plus (Atom Space)]),
       Str ''use'', Plus (Atom Space), Group 1 (Plus (Atom (NoneOf [Lit CHR '';'']))),
       Atom (Lit CHR '';'')]"

text \<open>\<^verbatim>\<open>^\s*(pub(?:\([^)]*\))?\s+)?struct\s+(\w+)\<close>, and the same with another keyword.\<close>

definition keyword_pattern :: "string \<Rightarrow> regex" where
  "keyword_pattern kw =
     Seqs [Bol, Star (Atom Space), visibility_prefix, Str kw, Plus (Atom Space),
       Group 2 (Plus (Atom Word))]"

definition pattern_struct :: regex where
  "pattern_struct = keyword_pattern ''struct''"

definition pattern_enum :: regex where
  "pattern_enum = keyword_pattern ''enum''"

definition pattern_trait :: regex where
  "pattern_trait = keyword_pattern ''trait''"

definition pattern_const_def :: regex where
  "pattern_const_def = keyword_pattern ''const''"

definition pattern_type_alias :: regex where
  "pattern_type_alias = keyword_pattern ''type''"

definition pattern_macro_def :: regex where
  "pattern_macro_def = keyword_pattern ''macro_rules!''"

text \<open>\<^verbatim>\<open>^\s*(pub(?:\([^)]*\))?\s+)?(?:async\s+)?(?:const\s+)?(?:unsafe\s+)?fn\s+(\w+)\<close>\<close>

definition pattern_fn_sig :: regex where
  "pattern_fn_sig =
     Seqs [Bol, Star (Atom Space), visibility_prefix,
       Opt (Seq (Str ''async'') (Plus (Atom Space))),
       Opt (Seq (Str ''const'') (Plus (Atom Space))),
       Opt (Seq (Str ''unsafe'') (Plus (Atom Space))),
       Str ''fn'', Plus (Atom Space), Group 2 (Plus (Atom Word))]"

text \<open>\<^verbatim>\<open>^\s*impl(?:<[^>]+>)?\s+(?:(\w+)\s+for\s+)?(\w+)\<close>\<close>

definition pattern_impl_block :: regex where
  "pattern_impl_block =
     Seqs [Bol, Star (Atom Space), Str ''impl'',
       Opt (Seqs [Atom (Lit CHR ''<''), Plus (Atom (NoneOf [Lit CHR ''>''])),
                  Atom (Lit CHR ''>'')]),
       Plus (Atom Space),
       Opt (Seqs [Group 1 (Plus (Atom Word)), Plus (Atom Space), Str ''for'',
                  Plus (Atom Space)]),
       Group 2 (Plus (Atom Word))]"

text \<open>\<^verbatim>\<open>#\[cfg\s*\(\s*feature\s*=\s*"([^"]+)"\s*\)\]\<close>\<close>

definition pattern_cfg_feature :: regex where
  "pattern_cfg_feature =
     Seqs [Str ''#[cfg'', Star (Atom Space), Atom (Lit CHR ''(''), Star (Atom Space),
       Str ''feature'', Star (Atom Space), Atom (Lit CHR ''=''), Star (Atom Space),
       Atom (Lit dquote), Group 1 (Plus (Atom (NoneOf [Lit dquote]))), Atom (Lit dquote),
       Star (Atom Space), Str '')]'']"

text \<open>\<^verbatim>\<open>#\[cfg\s*\(\s*any\s*\([^)]*feature\s*=\s*"([^"]+)"\<close>\<close>

definition pattern_cfg_any_feature :: regex where
  "pattern_cfg_any_feature =
     Seqs [Str ''#[cfg'', Star (Atom Space), Atom (Lit CHR ''(''), Star (Atom Space),
       Str ''any'', Star (Atom Space), Atom (Lit CHR ''(''),
       Star (Atom (NoneOf [Lit CHR '')''])),
       Str ''feature'', Star (Atom Space), Atom (Lit CHR ''=''), Star (Atom Space),
       Atom (Lit dquote), Group 1 (Plus (Atom (NoneOf [Lit dquote]))), Atom (Lit dquote)]"

text \<open>\<^verbatim>\<open>#\[cfg_attr\s*\(\s*feature\s*=\s*"([^"]+)"\<close>\<close>

definition pattern_cfg_attr_feature :: regex where
  "pattern_cfg_attr_feature =
     Seqs [Str ''#[cfg_attr'', Star (Atom Space), Atom (Lit CHR ''(''), Star (Atom Space),
       Str ''feature'', Star (Atom Space), Atom (Lit CHR ''=''), Star (Atom Space),
       Atom (Lit dquote), Group 1 (Plus (Atom (NoneOf [Lit dquote]))), Atom (Lit dquote)]"

text \<open>
  The two substitutions of \<^verbatim>\<open>estimate_symbol_end\<close>: \<^verbatim>\<open>"(?:[^"\\]|\\.)*"\<close> for a string literal
  and \<^verbatim>\<open>//.*$\<close> (without \<^verbatim>\<open>re.M\<close>) for a line comment.
\<close>

definition pattern_string_literal :: regex where
  "pattern_string_literal =
     Seqs [Atom (Lit dquote),
       Star (Alt (Atom (NoneOf [Lit dquote, Lit backslash]))
                 (Seq (Atom (Lit backslash)) (Atom Dot))),
       Atom (Lit dquote)]"

definition pattern_line_comment :: regex where
  "pattern_line_comment = Seqs [Str ''//'', Star (Atom Dot), EndOfText]"

text \<open>A line as \<^verbatim>\<open>estimate_symbol_end\<close> counts its braces: strings and comment removed.\<close>

definition code_of_line :: "string \<Rightarrow> string" where
  "code_of_line line = re_sub pattern_line_comment [] (re_sub pattern_string_literal [] line)"

text \<open>
  The loop of \<^verbatim>\<open>estimate_symbol_end\<close> over the lines of the window, each with its strings
  and comment removed as the loop body does first; \<open>i\<close> is the index of the first of
  them. \<open>None\<close> is the loop that ends without \<^verbatim>\<open>return\<close>.
\<close>

fun scan_end :: "string list \<Rightarrow> nat \<Rightarrow> int \<Rightarrow> bool \<Rightarrow> nat option" where
  "scan_end [] i brace_count started = None"
| "scan_end (line # later) i brace_count started =
     (if (started \<or> CHR ''{'' \<in> set line)
         \<and> brace_count + int (count_list line CHR ''{'') - int (count_list line CHR ''}'') = 0
      then Some (i + 1)
      else if \<not> (started \<or> CHR ''{'' \<in> set line) \<and> CHR '';'' \<in> set line
      then Some (i + 1)
      else scan_end later (i + 1)
             (brace_count + int (count_list line CHR ''{'') - int (count_list line CHR ''}''))
             (started \<or> CHR ''{'' \<in> set line))"

text \<open>
  \<^verbatim>\<open>estimate_symbol_end(lines, start_idx)\<close>; the window is
  \<^verbatim>\<open>range(start_idx, min(start_idx + 500, len(lines)))\<close>. The callers pass \<^verbatim>\<open>line_num - 1\<close>
  for a line number that is at least one, so the index is a natural number.
\<close>

definition scan_window :: "string list \<Rightarrow> nat \<Rightarrow> nat option" where
  "scan_window lines start_idx =
     scan_end (map code_of_line (take 500 (drop start_idx lines))) start_idx 0 False"

definition estimate_symbol_end :: "string list \<Rightarrow> nat \<Rightarrow> nat" where
  "estimate_symbol_end lines start_idx =
     (case scan_window lines start_idx of Some e \<Rightarrow> e | None \<Rightarrow> start_idx + 1)"

text \<open>\<^verbatim>\<open>content[:m.start()].count('\n') + 1\<close>\<close>

definition line_of :: "string \<Rightarrow> rx_match \<Rightarrow> nat" where
  "line_of content m = count_list (take (m_start m) content) newline + 1"

text \<open>\<^verbatim>\<open>m.group(n)\<close> for a group that takes part in every match of its pattern.\<close>

definition group_text :: "rx_match \<Rightarrow> nat \<Rightarrow> string" where
  "group_text m n = (case group (m_end m) n of Some t \<Rightarrow> t | None \<Rightarrow> [])"

definition make_import :: "string \<Rightarrow> string \<Rightarrow> rx_match \<Rightarrow> Import" where
  "make_import content file_path m =
     \<lparr>imp_path = strip (group_text m 1), imp_file = file_path,
      imp_line = int (line_of content m), imp_alias = None,
      is_glob = contains ''::*'' (strip (group_text m 1))\<rparr>"

text \<open>
  One feature gate. Its scope is \<^verbatim>\<open>lines[line_num] if line_num <= len(lines) else ''\<close>, where
  \<^verbatim>\<open>line_num\<close> counts from one.
\<close>

definition gate_at ::
  "string \<Rightarrow> string list \<Rightarrow> string \<Rightarrow> rx_match \<Rightarrow> nat \<Rightarrow> py_error + FeatureGate" where
  "gate_at file_path lines kind m line_num =
     (case (if line_num \<le> length lines then py_index lines line_num else Inr []) of
        Inl e \<Rightarrow> Inl e
      | Inr sc \<Rightarrow>
          Inr \<lparr>feature = group_text m 1, gate_file = file_path,
               gate_line = int line_num, gate_kind = kind, scope = sc\<rparr>)"

definition make_gate ::
  "string \<Rightarrow> string \<Rightarrow> string list \<Rightarrow> string \<Rightarrow> rx_match \<Rightarrow> py_error + FeatureGate" where
  "make_gate content file_path lines kind m =
     gate_at file_path lines kind m (line_of content m)"

text \<open>A loop that appends one item per match and stops at the first exception.\<close>

fun collect :: "('a \<Rightarrow> py_error + 'b) \<Rightarrow> 'a list \<Rightarrow> py_error + 'b list" where
  "collect f [] = Inr []"
| "collect f (x # xs) =
     (case f x of
        Inl e \<Rightarrow> Inl e
      | Inr y \<Rightarrow> (case collect f xs of Inl e \<Rightarrow> Inl e | Inr ys \<Rightarrow> Inr (y # ys)))"

definition extract_gates :: "string \<Rightarrow> string \<Rightarrow> string list \<Rightarrow> py_error + FeatureGate list" where
  "extract_gates content file_path lines =
     collect (\<lambda>(kind, m). make_gate content file_path lines kind m)
       (map (Pair ''cfg'') (finditer pattern_cfg_feature content)
        @ map (Pair ''cfg_any'') (finditer pattern_cfg_any_feature content)
        @ map (Pair ''cfg_attr'') (finditer pattern_cfg_attr_feature content))"

text \<open>
  One symbol of the kinds struct to macro. The features of \<^verbatim>\<open>cfg_features\<close> are those that
  \<^verbatim>\<open>cfg_feature\<close> finds in \<^verbatim>\<open>'\n'.join(lines[max(0, line_num-3):line_num-1])\<close>.
\<close>

definition symbol_at :: "string \<Rightarrow> string list \<Rightarrow> string \<Rightarrow> rx_match \<Rightarrow> nat \<Rightarrow> Symbol" where
  "symbol_at file_path lines kind m line_num =
     \<lparr>sym_name = group_text m 2, sym_kind = kind, sym_file = file_path,
      line_start = int line_num,
      line_end = int (estimate_symbol_end lines (line_num - 1)),
      visibility =
        (case group (m_end m) 1 of
           Some v \<Rightarrow> if v \<noteq> [] \<and> contains ''pub'' v then ''pub'' else ''private''
         | None \<Rightarrow> ''private''),
      parent = None,
      cfg_features =
        (if line_num > 1
         then map (\<lambda>cfg_m. group_text cfg_m 1)
                (finditer pattern_cfg_feature
                   (join [newline] (drop (line_num - 3) (take (line_num - 1) lines))))
         else []),
      sym_doc_lines = 0\<rparr>"

definition make_symbol :: "string \<Rightarrow> string \<Rightarrow> string list \<Rightarrow> string \<Rightarrow> rx_match \<Rightarrow> Symbol" where
  "make_symbol content file_path lines kind m =
     symbol_at file_path lines kind m (line_of content m)"

definition impl_at :: "string \<Rightarrow> string list \<Rightarrow> rx_match \<Rightarrow> nat \<Rightarrow> Symbol" where
  "impl_at file_path lines m line_num =
     \<lparr>sym_name =
        ''impl ''
        @ (case group (m_end m) 1 of
             Some trait_name \<Rightarrow> if trait_name \<noteq> [] then trait_name @ '' for '' else []
           | None \<Rightarrow> [])
        @ group_text m 2,
      sym_kind = ''impl'', sym_file = file_path,
      line_start = int line_num,
      line_end = int (estimate_symbol_end lines (line_num - 1)),
      visibility = ''pub'', parent = Some (group_text m 2), cfg_features = [],
      sym_doc_lines = 0\<rparr>"

definition make_impl :: "string \<Rightarrow> string \<Rightarrow> string list \<Rightarrow> rx_match \<Rightarrow> Symbol" where
  "make_impl content file_path lines m = impl_at file_path lines m (line_of content m)"

definition extract_symbols :: "string \<Rightarrow> string \<Rightarrow> string list \<Rightarrow> Symbol list" where
  "extract_symbols content file_path lines =
     concat (map (\<lambda>(kind, pattern). map (make_symbol content file_path lines kind)
                                       (finditer pattern content))
               [(''struct'', pattern_struct), (''enum'', pattern_enum),
                (''trait'', pattern_trait), (''fn'', pattern_fn_sig),
                (''const'', pattern_const_def), (''type'', pattern_type_alias),
                (''macro'', pattern_macro_def)])
     @ map (make_impl content file_path lines) (finditer pattern_impl_block content)"

text \<open>The module name: the stem of the path, replaced for \<open>mod\<close>, \<open>lib\<close> and \<open>main\<close>.\<close>

definition name_of_module :: "string \<Rightarrow> string \<Rightarrow> string" where
  "name_of_module file_path crate =
     (if path_stem file_path \<in> {''mod'', ''lib'', ''main''}
      then (if path_stem file_path = ''mod'' then path_parent_name file_path else crate)
      else path_stem file_path)"

definition count_doc_lines :: "string list \<Rightarrow> nat" where
  "count_doc_lines lines =
     length (filter (\<lambda>l. startswith (strip l) ''///'' \<or> startswith (strip l) ''//!'') lines)"

text \<open>The decision points that \<^verbatim>\<open>calculate_complexity\<close> counts in the content.\<close>

definition decision_keywords :: "string list" where
  "decision_keywords =
     [''if'', ''else'', ''match'', ''while'', ''for'', ''loop'', ''?'', ''&&'', ''||'']"

definition count_decision_points :: "string \<Rightarrow> nat" where
  "count_decision_points content =
     sum_list (map (\<lambda>kw. count_sub ('' '' @ kw @ '' '') content
                          + count_sub ('' '' @ kw @ ''('') content
                          + count_sub ([CHR 0x09] @ kw @ '' '') content)
                 decision_keywords)"

text \<open>
  \<^verbatim>\<open>extract_symbols_regex(content, file_path, crate_name)\<close>, with \<open>lines\<close> for
  \<^verbatim>\<open>content.split('\n')\<close>. The imports are read first; the loop over the feature gates is
  the one place that can raise.
\<close>

definition extract_module ::
  "string \<Rightarrow> string \<Rightarrow> string \<Rightarrow> string list \<Rightarrow> py_error + ModuleInfo" where
  "extract_module content file_path crate lines =
     (case extract_gates content file_path lines of
        Inl e \<Rightarrow> Inl e
      | Inr gates \<Rightarrow>
          Inr \<lparr>mod_name = name_of_module file_path crate, mod_path = file_path,
               crate_name = crate,
               symbols = extract_symbols content file_path lines,
               mod_imports = map (make_import content file_path)
                               (finditer pattern_use_stmt content),
               feature_gates = gates,
               mod_lines = int (length lines),
               mod_doc_lines = int (count_doc_lines lines),
               decision_points = count_decision_points content\<rparr>)"

definition extract_symbols_regex :: "string \<Rightarrow> string \<Rightarrow> string \<Rightarrow> py_error + ModuleInfo" where
  "extract_symbols_regex content file_path crate =
     extract_module content file_path crate (split_on newline content)"





definition small_module :: ModuleInfo where
  "small_module =
     \<lparr>mod_name = ''a'', mod_path = ''a.rs'', crate_name = ''demo'',
      symbols = [\<lparr>sym_name = ''f'', sym_kind = ''fn'', sym_file = ''a.rs'', line_start = 1,
                  line_end = 2, visibility = ''private'', parent = None, cfg_features = [],
                  sym_doc_lines = 0\<rparr>],
      mod_imports = [], feature_gates = [], mod_lines = 3, mod_doc_lines = 0,
      decision_points = 0\<rparr>"

text \<open>A file whose last line holds a feature gate.\<close>

definition gate_on_last_line :: string where
  \<open>gate_on_last_line = ''#[cfg(feature = "x")]''\<close>

section \<open>Smell detection\<close>

text \<open>
  The dataclass \<^verbatim>\<open>Smell\<close>. The confidence is one of the float literals \<^verbatim>\<open>0.6\<close>, \<^verbatim>\<open>0.8\<close>,
  \<^verbatim>\<open>0.9\<close> and \<^verbatim>\<open>1.0\<close>, kept as the decimal number that the literal denotes.
\<close>

record Smell =
  smell_kind :: string
  severity :: string
  smell_file :: string
  smell_line :: int
  smell_message :: string
  smell_context :: string
  suggestion :: string
  confidence :: real
  evidence :: "string list"

text \<open>
  The table \<^verbatim>\<open>SMELL_PATTERNS\<close> in the order of the dictionary: kind, pattern (compiled with
  \<^verbatim>\<open>re.M\<close>), severity, message.
\<close>

definition macro_call :: "string \<Rightarrow> regex" where
  "macro_call name = Seqs [WordBoundary, Str name, Star (Atom Space), Atom (Lit CHR ''('')]"

definition SMELL_PATTERNS :: "(string \<times> regex \<times> string \<times> string) list" where
  "SMELL_PATTERNS =
     [(''wrong_lang_js'',
         Alt (Str ''console.log'')
           (Alt (Seqs [Str ''.forEach'', Star (Atom Space), Atom (Lit CHR ''('')])
                (Seqs [Str ''.map'', Star (Atom Space), Atom (Lit CHR ''(''),
                       Star (Atom Space), Plus (Atom Word), Star (Atom Space), Str ''=>''])),
         ''error'', ''JavaScript code in Rust file''),
      (''wrong_lang_py'',
         Alt (Seqs [WordBoundary, Str ''def'', Plus (Atom Space), Plus (Atom Word),
                    Star (Atom Space), Atom (Lit CHR ''('')])
             (Seqs [Bol, Star (Atom Space), Str ''pass'', Star (Atom Space), Eol]),
         ''error'', ''Python code in Rust file''),
      (''todo_macro'', macro_call ''todo!'', ''warning'', ''todo!() placeholder''),
      (''unimplemented'', macro_call ''unimplemented!'', ''warning'',
         ''unimplemented!() stub''),
      (''empty_fn'',
         Seqs [Str ''fn'', Plus (Atom Space), Plus (Atom Word),
               Plus (Atom (NoneOf [Lit CHR ''{''])), Atom (Lit CHR ''{''),
               Star (Atom Space), Atom (Lit CHR ''}'')],
         ''warning'', ''Empty function body''),
      (''unsafe_block'',
         Seqs [WordBoundary, Str ''unsafe'', Star (Atom Space), Atom (Lit CHR ''{'')],
         ''info'', ''unsafe block (audit required)''),
      (''transmute'', Seqs [WordBoundary, Str ''transmute'', WordBoundary],
         ''warning'', ''transmute (extremely unsafe)''),
      (''unwrap_chain'', Str ''.unwrap().unwrap()'', ''warning'', ''Double unwrap chain''),
      (''dbg_macro'', macro_call ''dbg!'', ''info'', ''dbg!() macro (debug leftover)''),
      (''wildcard_import'',
         Seqs [Str ''use'', Plus (Atom Space), Plus (Atom Word),
               Star (Seq (Str ''::'') (Plus (Atom Word))), Str ''::*;''],
         ''info'', ''Wildcard import''),
      (''magic_number'',
         Seqs [NotBehind (OneOf [Lit CHR ''.'', Word]), AtLeast 5 (Atom Digit),
               NotAhead (OneOf [Lit CHR ''.'', Word])],
         ''info'', ''Magic number'')]"

definition SMELL_SUGGESTIONS :: "(string \<times> string) list" where
  "SMELL_SUGGESTIONS =
     [(''wrong_lang_js'', ''REMOVE - wrong language''),
      (''wrong_lang_py'', ''REMOVE - wrong language''),
      (''todo_macro'', ''Implement or track in issue''),
      (''unimplemented'', ''Implement the function''),
      (''empty_fn'', ''Implement function body''),
      (''unsafe_block'', ''Document safety invariants''),
      (''transmute'', ''Use safe alternatives''),
      (''unwrap_chain'', ''Use ? or and_then''),
      (''dbg_macro'', ''Remove before release''),
      (''wildcard_import'', ''Use explicit imports''),
      (''magic_number'', ''Extract to named constant'')]"

text \<open>\<^verbatim>\<open>SMELL_SUGGESTIONS.get(kind, 'Review and fix')\<close>\<close>

definition suggestion_for :: "string \<Rightarrow> string" where
  "suggestion_for kind =
     (case map_of SMELL_SUGGESTIONS kind of Some s \<Rightarrow> s | None \<Rightarrow> ''Review and fix'')"

text \<open>The smells of one pattern: one for each line that the pattern is found in.\<close>

definition pattern_smell :: "string \<Rightarrow> string \<Rightarrow> string \<Rightarrow> string \<Rightarrow> nat \<Rightarrow> string \<Rightarrow> Smell" where
  "pattern_smell kind sev msg file_path i line =
     \<lparr>smell_kind = kind, severity = sev, smell_file = file_path, smell_line = int i,
      smell_message = msg, smell_context = take 80 (strip line),
      suggestion = suggestion_for kind, confidence = 9 / 10, evidence = []\<rparr>"

definition smells_of_pattern ::
  "string \<Rightarrow> string list \<Rightarrow> string \<times> regex \<times> string \<times> string \<Rightarrow> Smell list" where
  "smells_of_pattern file_path lines entry =
     (case entry of (kind, rx, sev, msg) \<Rightarrow>
        map (\<lambda>(i, line). pattern_smell kind sev msg file_path i line)
          (filter (\<lambda>(i, line). search rx line) (enumerate 1 lines)))"

definition pattern_smells :: "string \<Rightarrow> string list \<Rightarrow> Smell list" where
  "pattern_smells file_path lines = concat (map (smells_of_pattern file_path lines) SMELL_PATTERNS)"

text \<open>
  The start of a function, \<^verbatim>\<open>^\s*(?:pub(?:\([^)]*\))?\s+)?(?:async\s+)?fn\s+\w+\<close>, tried with
  \<^verbatim>\<open>re.match\<close> at the start of a line.
\<close>

definition pattern_fn_start :: regex where
  "pattern_fn_start =
     Seqs [Bol, Star (Atom Space),
       Opt (Seqs [Str ''pub'',
              Opt (Seqs [Atom (Lit CHR ''(''), Star (Atom (NoneOf [Lit CHR '')''])),
                         Atom (Lit CHR '')'')]),
              Plus (Atom Space)]),
       Opt (Seq (Str ''async'') (Plus (Atom Space))),
       Str ''fn'', Plus (Atom Space), Plus (Atom Word)]"

definition fn_starts :: "string list \<Rightarrow> nat list" where
  "fn_starts lines =
     map fst (filter (\<lambda>(i, line). re_match pattern_fn_start line) (enumerate 0 lines))"

definition long_function_smell :: "string \<Rightarrow> string list \<Rightarrow> nat \<Rightarrow> int \<Rightarrow> Smell" where
  "long_function_smell file_path lines start fn_len =
     \<lparr>smell_kind = ''long_function'', severity = ''warning'', smell_file = file_path,
      smell_line = int start + 1, smell_message = str_int fn_len @ '' line function'',
      smell_context = take 60 (strip (lines ! start)),
      suggestion = ''Split into smaller functions'', confidence = 1, evidence = []\<rparr>"

text \<open>
  The loop over \<^verbatim>\<open>fn_starts\<close>: a function ends where the next one starts, the last one at
  the end of the file.
\<close>

fun long_function_smells :: "string \<Rightarrow> string list \<Rightarrow> nat list \<Rightarrow> Smell list" where
  "long_function_smells file_path lines [] = []"
| "long_function_smells file_path lines [start] =
     (if int (length lines) - int start > 100
      then [long_function_smell file_path lines start (int (length lines) - int start)]
      else [])"
| "long_function_smells file_path lines (start # next # starts) =
     (if int next - int start > 100
      then [long_function_smell file_path lines start (int next - int start)]
      else [])
     @ long_function_smells file_path lines (next # starts)"

definition deep_nesting_smell :: "string \<Rightarrow> nat \<Rightarrow> string \<Rightarrow> Smell" where
  "deep_nesting_smell file_path i line =
     \<lparr>smell_kind = ''deep_nesting'', severity = ''info'', smell_file = file_path,
      smell_line = int i, smell_message = ''Deep nesting (6+ levels)'',
      smell_context = take 60 (strip line), suggestion = ''Extract helper function'',
      confidence = 8 / 10, evidence = []\<rparr>"

definition deep_nesting_smells :: "string \<Rightarrow> string list \<Rightarrow> Smell list" where
  "deep_nesting_smells file_path lines =
     map (\<lambda>(i, line). deep_nesting_smell file_path i line)
       (filter (\<lambda>(i, line). length line - length (lstrip line) \<ge> 24) (enumerate 1 lines))"

text \<open>
  \<^verbatim>\<open>detect_smells(content, file_path)\<close>. The variable \<^verbatim>\<open>stripped\<close> of the source is never
  read.
\<close>

definition smells_of_lines :: "string \<Rightarrow> string list \<Rightarrow> Smell list" where
  "smells_of_lines file_path lines =
     pattern_smells file_path lines
     @ long_function_smells file_path lines (fn_starts lines)
     @ deep_nesting_smells file_path lines"

definition detect_smells :: "string \<Rightarrow> string \<Rightarrow> Smell list" where
  "detect_smells content file_path = smells_of_lines file_path (split_on newline content)"

text \<open>\<^verbatim>\<open>text.split(sep)\<close> for a separator of several characters.\<close>

function split_str :: "string \<Rightarrow> string \<Rightarrow> string list" where
  "split_str sep t =
     (if sep = [] \<or> t = [] then [t]
      else if take (length sep) t = sep then [] # split_str sep (drop (length sep) t)
      else (case split_str sep (tl t) of
              [] \<Rightarrow> [[hd t]]
            | w # ws \<Rightarrow> (hd t # w) # ws))"
  by pat_completeness auto
termination
  by (relation "measure (\<lambda>(sep, t). length t)") auto

text \<open>
  The names that an import brings in: the items of the last \<^verbatim>\<open>::\<close> component of its path,
  braces removed.
\<close>

definition imported_items :: "string \<Rightarrow> string list" where
  "imported_items path =
     filter (\<lambda>p. p \<noteq> [])
       (map strip
          (split_on CHR '',''
             (last (split_str ''::'' (filter (\<lambda>c. c \<noteq> CHR ''{'' \<and> c \<noteq> CHR ''}'') path)))))"

text \<open>
  The dictionary \<^verbatim>\<open>import_usages\<close> maps an import path to the set of the names of the
  functions that use it: an association list in the order of insertion, each set a list
  without repetition.
\<close>

fun usage_add :: "string \<Rightarrow> string \<Rightarrow> (string \<times> string list) list \<Rightarrow> (string \<times> string list) list" where
  "usage_add k v [] = [(k, [v])]"
| "usage_add k v ((k', vs) # us) =
     (if k' = k then (k', List.insert v vs) # us else (k', vs) # usage_add k v us)"

text \<open>
  The first loop of \<^verbatim>\<open>detect_imported_but_low_signal\<close>. The text \<^verbatim>\<open>str(symbol)\<close> of a symbol
  depends on how the caller represents it (a dataclass instance or a dictionary), so it
  is the parameter \<open>show\<close>.
\<close>

fun uses_of_items ::
  "(Symbol \<Rightarrow> string) \<Rightarrow> string \<Rightarrow> Symbol \<Rightarrow> string list \<Rightarrow> (string \<times> string list) list
   \<Rightarrow> (string \<times> string list) list" where
  "uses_of_items show path symbol [] usages = usages"
| "uses_of_items show path symbol (item # items) usages =
     uses_of_items show path symbol items
       (if item \<noteq> [] \<and> contains item (show symbol)
        then usage_add path (sym_name symbol) usages else usages)"

fun uses_of_symbols ::
  "(Symbol \<Rightarrow> string) \<Rightarrow> string \<Rightarrow> string list \<Rightarrow> Symbol list \<Rightarrow> (string \<times> string list) list
   \<Rightarrow> (string \<times> string list) list" where
  "uses_of_symbols show path items [] usages = usages"
| "uses_of_symbols show path items (symbol # syms) usages =
     uses_of_symbols show path items syms
       (if sym_kind symbol = ''fn'' then uses_of_items show path symbol items usages
        else usages)"

fun uses_of_imports ::
  "(Symbol \<Rightarrow> string) \<Rightarrow> Symbol list \<Rightarrow> Import list \<Rightarrow> (string \<times> string list) list
   \<Rightarrow> (string \<times> string list) list" where
  "uses_of_imports show syms [] usages = usages"
| "uses_of_imports show syms (imp # imps) usages =
     uses_of_imports show syms imps
       (uses_of_symbols show (imp_path imp) (imported_items (imp_path imp)) syms usages)"

definition low_signal_smell :: "string \<Rightarrow> string \<Rightarrow> string \<Rightarrow> Symbol \<Rightarrow> Smell" where
  "low_signal_smell file_path path fn_name symbol =
     \<lparr>smell_kind = ''imported_but_low_signal'', severity = ''info'', smell_file = file_path,
      smell_line = line_start symbol,
      smell_message = ''Import '' @ [dquote] @ path @ [dquote]
                      @ '' only used in short function '' @ [dquote] @ fn_name @ [dquote],
      smell_context = str_int (line_end symbol - line_start symbol) @ '' line function'',
      suggestion = ''Consider inlining or reviewing abstraction'', confidence = 6 / 10,
      evidence = [''Import: '' @ path, ''Function: '' @ fn_name,
                  ''Length: '' @ str_int (line_end symbol - line_start symbol) @ '' lines'']\<rparr>"

text \<open>The second loop: the imports that one function uses, if that function is short.\<close>

definition smells_of_usage :: "string \<Rightarrow> Symbol list \<Rightarrow> string \<times> string list \<Rightarrow> Smell list" where
  "smells_of_usage file_path syms usage =
     (case usage of (path, users) \<Rightarrow>
        if length users = 1
        then map (low_signal_smell file_path path (hd users))
               (filter (\<lambda>symbol. sym_name symbol = hd users \<and> sym_kind symbol = ''fn''
                                  \<and> line_end symbol - line_start symbol < 10) syms)
        else [])"

definition detect_imported_but_low_signal :: "(Symbol \<Rightarrow> string) \<Rightarrow> ModuleInfo \<Rightarrow> Smell list" where
  "detect_imported_but_low_signal show mdl =
     concat (map (smells_of_usage (mod_path mdl) (symbols mdl))
               (uses_of_imports show (symbols mdl) (mod_imports mdl) []))"

text \<open>The kinds of the line patterns.\<close>

definition pattern_kinds :: "string set" where
  "pattern_kinds = fst ` set SMELL_PATTERNS"

text \<open>
  A file of 101 lines that starts one function, with the smell that its length gives; and
  a file of one line with a \<^verbatim>\<open>todo!()\<close>, with the smell of that line.
\<close>

definition long_file :: string where
  "long_file = ''fn f() {'' @ replicate 100 newline"

definition long_smell :: Smell where
  "long_smell =
     \<lparr>smell_kind = ''long_function'', severity = ''warning'', smell_file = ''a.rs'',
      smell_line = 1, smell_message = ''101 line function'', smell_context = ''fn f() {'',
      suggestion = ''Split into smaller functions'', confidence = 1, evidence = []\<rparr>"

definition todo_file :: string where
  "todo_file = ''    todo!()''"

definition todo_smell :: Smell where
  "todo_smell =
     \<lparr>smell_kind = ''todo_macro'', severity = ''warning'', smell_file = ''a.rs'',
      smell_line = 1, smell_message = ''todo!() placeholder'', smell_context = ''todo!()'',
      suggestion = ''Implement or track in issue'', confidence = 9 / 10, evidence = []\<rparr>"

section \<open>Duplicate detection\<close>

text \<open>
  \<^verbatim>\<open>normalize_code(code)\<close>: five substitutions and a \<^verbatim>\<open>strip\<close>. The patterns are
  \<^verbatim>\<open>/\*.*?\*/\<close> under \<^verbatim>\<open>re.DOTALL\<close>, \<^verbatim>\<open>//.*$\<close> under \<^verbatim>\<open>re.MULTILINE\<close>, the string literal of
  \<^verbatim>\<open>estimate_symbol_end\<close>, the character literal \<^verbatim>\<open>'(?:[^'\\]|\\.)'\<close> and \<^verbatim>\<open>\s+\<close>.
\<close>

definition pattern_block_comment :: regex where
  "pattern_block_comment = Seqs [Str ''/*'', LazyStar (Atom DotAll), Str ''*/'']"

definition pattern_line_comment_multiline :: regex where
  "pattern_line_comment_multiline = Seqs [Str ''//'', Star (Atom Dot), Eol]"

definition pattern_char_literal :: regex where
  "pattern_char_literal =
     Seqs [Atom (Lit squote),
       Alt (Atom (NoneOf [Lit squote, Lit backslash])) (Seq (Atom (Lit backslash)) (Atom Dot)),
       Atom (Lit squote)]"

definition pattern_whitespace :: regex where
  "pattern_whitespace = Plus (Atom Space)"

definition normalize_code :: "string \<Rightarrow> string" where
  "normalize_code code =
     strip (re_sub pattern_whitespace '' ''
       (re_sub pattern_char_literal [squote, squote]
         (re_sub pattern_string_literal [dquote, dquote]
           (re_sub pattern_line_comment_multiline []
             (re_sub pattern_block_comment [] code)))))"

text \<open>\<^verbatim>\<open>text.split()\<close>: the words between runs of whitespace.\<close>

function words_of :: "string \<Rightarrow> string list" where
  "words_of t =
     (if dropWhile is_space t = [] then []
      else takeWhile (\<lambda>c. \<not> is_space c) (dropWhile is_space t)
           # words_of (dropWhile (\<lambda>c. \<not> is_space c) (dropWhile is_space t)))"
  by pat_completeness auto
termination
proof (relation "measure length")
  fix t :: string
  assume ne: "dropWhile is_space t \<noteq> []"
  then have "\<not> is_space (hd (dropWhile is_space t))"
    by (rule hd_dropWhile)
  with ne have "dropWhile (\<lambda>c. \<not> is_space c) (dropWhile is_space t)
                  = dropWhile (\<lambda>c. \<not> is_space c) (tl (dropWhile is_space t))"
    by (cases "dropWhile is_space t") simp_all
  moreover have "length (dropWhile (\<lambda>c. \<not> is_space c) (tl (dropWhile is_space t)))
                   \<le> length (tl (dropWhile is_space t))"
    by (rule length_dropWhile_le)
  moreover have "length (tl (dropWhile is_space t)) < length (dropWhile is_space t)"
    using ne by simp
  moreover have "length (dropWhile is_space t) \<le> length t"
    by (rule length_dropWhile_le)
  ultimately show "(dropWhile (\<lambda>c. \<not> is_space c) (dropWhile is_space t), t) \<in> measure length"
    by simp
qed simp

text \<open>The windows \<^verbatim>\<open>words[i:i+k]\<close> for \<^verbatim>\<open>i\<close> in \<^verbatim>\<open>range(len(words) - k + 1)\<close>.\<close>

fun windows :: "nat \<Rightarrow> 'a list \<Rightarrow> 'a list list" where
  "windows k [] = []"
| "windows k (w # ws) = (if k \<le> length (w # ws) then take k (w # ws) # windows k ws else [])"

text \<open>
  \<^verbatim>\<open>compute_shingle_hash(text, k)\<close>. Python's \<^verbatim>\<open>hash\<close> of a string is salted anew for every
  process; \<open>h\<close> is the hash function of the run.
\<close>

definition compute_shingle_hash :: "(string \<Rightarrow> int) \<Rightarrow> string \<Rightarrow> nat \<Rightarrow> int fset" where
  "compute_shingle_hash h text k =
     (if length (words_of text) < k then {|h text|}
      else fset_of_list (map (\<lambda>ws. h (join '' '' ws)) (windows k (words_of text))))"

text \<open>\<^verbatim>\<open>items[a:b]\<close> for integers \<^verbatim>\<open>a\<close> and \<^verbatim>\<open>b\<close> of either sign.\<close>

definition slice_bound :: "nat \<Rightarrow> int \<Rightarrow> nat" where
  "slice_bound n i = (if i < 0 then nat (max (i + int n) 0) else min (nat i) n)"

definition py_slice :: "'a list \<Rightarrow> int \<Rightarrow> int \<Rightarrow> 'a list" where
  "py_slice xs a b =
     take (slice_bound (length xs) b - slice_bound (length xs) a)
       (drop (slice_bound (length xs) a) xs)"

text \<open>A candidate of \<^verbatim>\<open>fn_signatures\<close>, a location and the dataclass \<^verbatim>\<open>DuplicateCluster\<close>.\<close>

record Candidate =
  cand_file :: string
  cand_line_start :: int
  cand_line_end :: int
  cand_content :: string
  cand_shingles :: "int fset"
  cand_name :: string

record Location =
  loc_file :: string
  loc_line_start :: int
  loc_line_end :: int

text \<open>
  The source stores \<^verbatim>\<open>round(similarity, 2)\<close>, a float; the record keeps the quotient that
  is rounded.
\<close>

record DuplicateCluster =
  signature :: string
  locations :: "Location list"
  excerpt :: string
  similarity :: real

text \<open>
  Stage 1 for one function whose body has been cut out of its file: the signature
  \<^verbatim>\<open>tuple(sorted(shingles)[:10])\<close> and the candidate.
\<close>

definition candidate_with_shingles ::
  "string \<Rightarrow> Symbol \<Rightarrow> string \<Rightarrow> int fset \<Rightarrow> int list \<times> Candidate" where
  "candidate_with_shingles file_path symbol fn_body shingles =
     (take 10 (sorted_list_of_fset shingles),
      \<lparr>cand_file = file_path, cand_line_start = line_start symbol,
       cand_line_end = line_end symbol, cand_content = fn_body, cand_shingles = shingles,
       cand_name = sym_name symbol\<rparr>)"

definition candidate_with :: "(string \<Rightarrow> int) \<Rightarrow> string \<Rightarrow> Symbol \<Rightarrow> string \<Rightarrow> int list \<times> Candidate" where
  "candidate_with h file_path symbol fn_body =
     candidate_with_shingles file_path symbol fn_body
       (compute_shingle_hash h (normalize_code fn_body) 3)"

text \<open>
  One symbol of a readable file: \<open>None\<close> where the loop says \<^verbatim>\<open>continue\<close>, for a symbol
  that is no function or a body of less than \<^verbatim>\<open>min_lines\<close> lines.
\<close>

definition candidate_of ::
  "(string \<Rightarrow> int) \<Rightarrow> int \<Rightarrow> string \<Rightarrow> string list \<Rightarrow> Symbol \<Rightarrow> (int list \<times> Candidate) option" where
  "candidate_of h min_lines file_path lines symbol =
     (if sym_kind symbol \<noteq> ''fn'' then None
      else if min (line_end symbol) (int (length lines)) - (line_start symbol - 1) < min_lines
      then None
      else Some (candidate_with h file_path symbol
                   (join [newline]
                      (py_slice lines (line_start symbol - 1)
                         (min (line_end symbol) (int (length lines)))))))"

text \<open>
  The dictionary \<^verbatim>\<open>fn_signatures\<close>, from a signature to the list of its candidates, in the
  order of insertion.
\<close>

type_synonym signatures = "(int list \<times> Candidate list) list"

fun signature_append :: "int list \<Rightarrow> Candidate \<Rightarrow> signatures \<Rightarrow> signatures" where
  "signature_append sig c [] = [(sig, [c])]"
| "signature_append sig c ((sig', cs) # sigs) =
     (if sig' = sig then (sig', cs @ [c]) # sigs else (sig', cs) # signature_append sig c sigs)"

fun add_symbol_candidates ::
  "(string \<Rightarrow> int) \<Rightarrow> int \<Rightarrow> string \<Rightarrow> string list \<Rightarrow> Symbol list \<Rightarrow> signatures \<Rightarrow> signatures" where
  "add_symbol_candidates h min_lines file_path lines [] sigs = sigs"
| "add_symbol_candidates h min_lines file_path lines (symbol # syms) sigs =
     add_symbol_candidates h min_lines file_path lines syms
       (case candidate_of h min_lines file_path lines symbol of
          None \<Rightarrow> sigs
        | Some (sig, c) \<Rightarrow> signature_append sig c sigs)"

text \<open>
  The loop over the modules. \<open>read\<close> is \<^verbatim>\<open>safe_read\<close> on the file system of the run: \<open>None\<close>
  for a file that is missing, unreadable or over the size limit. An empty content is
  skipped as well (\<^verbatim>\<open>if not content\<close>).
\<close>

fun add_module_candidates ::
  "(string \<Rightarrow> string option) \<Rightarrow> (string \<Rightarrow> int) \<Rightarrow> int \<Rightarrow> (string \<times> ModuleInfo) list
   \<Rightarrow> signatures \<Rightarrow> signatures" where
  "add_module_candidates read h min_lines [] sigs = sigs"
| "add_module_candidates read h min_lines ((p, mdl) # mods) sigs =
     add_module_candidates read h min_lines mods
       (case read (mod_path mdl) of
          None \<Rightarrow> sigs
        | Some content \<Rightarrow>
            if content = [] then sigs
            else add_symbol_candidates h min_lines (mod_path mdl) (split_on newline content)
                   (symbols mdl) sigs)"

text \<open>Stage 2. The key of a location is \<^verbatim>\<open>f"{file}:{line_start}"\<close>.\<close>

definition location_key :: "string \<Rightarrow> int \<Rightarrow> string" where
  "location_key file line = file @ '':'' @ str_int line"

definition cluster_key :: "Candidate \<Rightarrow> Candidate \<Rightarrow> string list" where
  "cluster_key c1 c2 =
     sort [location_key (cand_file c1) (cand_line_start c1),
           location_key (cand_file c2) (cand_line_start c2)]"

definition location_of :: "Candidate \<Rightarrow> Location" where
  "location_of c =
     \<lparr>loc_file = cand_file c, loc_line_start = cand_line_start c,
      loc_line_end = cand_line_end c\<rparr>"

definition make_cluster :: "Candidate \<Rightarrow> Candidate \<Rightarrow> DuplicateCluster" where
  "make_cluster c1 c2 =
     \<lparr>signature = cand_name c1 @ '' ~ '' @ cand_name c2,
      locations = [location_of c1, location_of c2],
      excerpt = (if length (cand_content c1) > 200 then take 200 (cand_content c1) @ ''...''
                 else cand_content c1),
      similarity = jaccard_similarity (cand_shingles c1) (cand_shingles c2)\<rparr>"

text \<open>The variables \<^verbatim>\<open>seen\<close> and \<^verbatim>\<open>clusters\<close> of the second stage.\<close>

record dup_state =
  seen :: "string list set"
  clusters :: "DuplicateCluster list"

text \<open>The body of the inner loop, for one pair of candidates of a signature.\<close>

definition compare_pair :: "real \<Rightarrow> Candidate \<Rightarrow> Candidate \<Rightarrow> dup_state \<Rightarrow> dup_state" where
  "compare_pair similarity_threshold c1 c2 st =
     (if cand_file c1 = cand_file c2 then st
      else if jaccard_similarity (cand_shingles c1) (cand_shingles c2) \<ge> similarity_threshold
      then (if cluster_key c1 c2 \<in> seen st then st
            else \<lparr>seen = insert (cluster_key c1 c2) (seen st),
                  clusters = clusters st @ [make_cluster c1 c2]\<rparr>)
      else st)"

fun compare_with :: "real \<Rightarrow> Candidate \<Rightarrow> Candidate list \<Rightarrow> dup_state \<Rightarrow> dup_state" where
  "compare_with th c1 [] st = st"
| "compare_with th c1 (c2 # cs) st = compare_with th c1 cs (compare_pair th c1 c2 st)"

fun compare_candidates :: "real \<Rightarrow> Candidate list \<Rightarrow> dup_state \<Rightarrow> dup_state" where
  "compare_candidates th [] st = st"
| "compare_candidates th (c1 # cs) st = compare_candidates th cs (compare_with th c1 cs st)"

fun compare_signatures :: "real \<Rightarrow> signatures \<Rightarrow> dup_state \<Rightarrow> dup_state" where
  "compare_signatures th [] st = st"
| "compare_signatures th ((sig, candidates) # sigs) st =
     compare_signatures th sigs
       (if length candidates < 2 then st else compare_candidates th candidates st)"

text \<open>
  \<^verbatim>\<open>detect_duplicates(modules, min_lines, similarity_threshold)\<close>, the defaults being 5 and
  \<^verbatim>\<open>0.8\<close>.
\<close>

definition detect_duplicates ::
  "(string \<Rightarrow> string option) \<Rightarrow> (string \<Rightarrow> int) \<Rightarrow> (string \<times> ModuleInfo) list \<Rightarrow> int \<Rightarrow> real
   \<Rightarrow> DuplicateCluster list" where
  "detect_duplicates read h modules min_lines similarity_threshold =
     clusters (compare_signatures similarity_threshold
                 (add_module_candidates read h min_lines modules [])
                 \<lparr>seen = {}, clusters = []\<rparr>)"

text \<open>
  The places of a cluster: the file and the start line of each of its locations; and the
  number of lines that a location spans.
\<close>

definition places :: "DuplicateCluster \<Rightarrow> (string \<times> int) set" where
  "places c = (\<lambda>l. (loc_file l, loc_line_start l)) ` set (locations c)"

definition span :: "Location \<Rightarrow> int" where
  "span l = loc_line_end l - loc_line_start l + 1"

text \<open>
  Three files with the same function of five lines, the modules that the extractor makes
  of them, and a hash function.
\<close>

definition five_line_function :: string where
  "five_line_function =
     join [newline] [''fn f() {'', ''let a = 1;'', ''let b = 2;'', ''a + b'', ''}'']"

definition three_files :: "string \<Rightarrow> string option" where
  "three_files path =
     (if path \<in> {''a.rs'', ''b.rs'', ''c.rs''} then Some five_line_function else None)"

definition function_module :: "string \<Rightarrow> string \<times> ModuleInfo" where
  "function_module path =
     (path,
      \<lparr>mod_name = takeWhile (\<lambda>c. c \<noteq> CHR ''.'') path, mod_path = path, crate_name = ''demo'',
       symbols = [\<lparr>sym_name = ''f'', sym_kind = ''fn'', sym_file = path, line_start = 1,
                   line_end = 5, visibility = ''private'', parent = None, cfg_features = [],
                   sym_doc_lines = 0\<rparr>],
       mod_imports = [], feature_gates = [], mod_lines = 5, mod_doc_lines = 0,
       decision_points = 0\<rparr>)"

definition three_modules :: "(string \<times> ModuleInfo) list" where
  "three_modules = [function_module ''a.rs'', function_module ''b.rs'', function_module ''c.rs'']"

definition sample_hash :: "string \<Rightarrow> int" where
  "sample_hash t = foldl (\<lambda>a c. (31 * a + int (of_char c)) mod 1000003) 7 t"

text \<open>The candidates of all signatures.\<close>

definition all_candidates :: "signatures \<Rightarrow> Candidate set" where
  "all_candidates sigs = (\<Union>(sig, cs) \<in> set sigs. set cs)"

text \<open>
  The invariant of the second stage: every cluster is made of two candidates of different
  files that satisfy \<open>P\<close>, its key is in \<^verbatim>\<open>seen\<close>, and no two clusters have the same key.
\<close>

definition key_of_cluster :: "DuplicateCluster \<Rightarrow> string list" where
  "key_of_cluster cl = sort (map (\<lambda>l. location_key (loc_file l) (loc_line_start l)) (locations cl))"

definition pair_cluster :: "(Candidate \<Rightarrow> bool) \<Rightarrow> DuplicateCluster \<Rightarrow> bool" where
  "pair_cluster P cl \<longleftrightarrow>
     (\<exists>c1 c2. cl = make_cluster c1 c2 \<and> P c1 \<and> P c2 \<and> cand_file c1 \<noteq> cand_file c2)"

definition dup_invariant :: "(Candidate \<Rightarrow> bool) \<Rightarrow> dup_state \<Rightarrow> bool" where
  "dup_invariant P st \<longleftrightarrow>
     distinct (map key_of_cluster (clusters st))
     \<and> key_of_cluster ` set (clusters st) \<subseteq> seen st
     \<and> (\<forall>cl \<in> set (clusters st). pair_cluster P cl)"

section \<open>The run of the analysis\<close>

text \<open>
  Phases 3 to 6 of \<^verbatim>\<open>analyze_workspace\<close>: the parse of the files, the feature matrix, the
  smells and the duplicates. The phases 1, 2 and 7 work on the output of \<^verbatim>\<open>cargo metadata\<close>
  and on the manifests, which the later phases do not read, and are left out together
  with the index \<^verbatim>\<open>symbols_by_name\<close> and the metrics.

  \<^verbatim>\<open>d[k] = v\<close> on a dictionary: a key that is there keeps its place.
\<close>

fun dict_set :: "'k \<Rightarrow> 'v \<Rightarrow> ('k \<times> 'v) list \<Rightarrow> ('k \<times> 'v) list" where
  "dict_set k v [] = [(k, v)]"
| "dict_set k v ((k', v') # d) =
     (if k' = k then (k', v) # d else (k', v') # dict_set k v d)"

text \<open>
  The nested function \<^verbatim>\<open>parse_file\<close>. \<open>read\<close> is \<^verbatim>\<open>safe_read\<close> on the file system of the run
  and \<open>crate_of\<close> is \<^verbatim>\<open>get_crate_name\<close>, which reads the manifests. The result is \<^verbatim>\<open>None\<close> for
  a file without content.
\<close>

definition parse_file ::
  "(string \<Rightarrow> string option) \<Rightarrow> (string \<Rightarrow> string) \<Rightarrow> string \<Rightarrow> py_error + ModuleInfo option" where
  "parse_file read crate_of file_path =
     (case read file_path of
        None \<Rightarrow> Inr None
      | Some content \<Rightarrow>
          if content = [] then Inr None
          else (case extract_symbols_regex content file_path (crate_of file_path) of
                  Inl e \<Rightarrow> Inl e
                | Inr mdl \<Rightarrow> Inr (Some mdl)))"

text \<open>
  The loop \<^verbatim>\<open>for future in as_completed(futures)\<close> over the results of the parses, in the
  order in which the thread pool completes them: \<^verbatim>\<open>future.result()\<close> raises what the parse
  raised, and a module is stored under its path.
\<close>

fun merge_modules ::
  "(py_error + ModuleInfo option) list \<Rightarrow> (string \<times> ModuleInfo) list
   \<Rightarrow> py_error + (string \<times> ModuleInfo) list" where
  "merge_modules [] result_modules = Inr result_modules"
| "merge_modules (Inl e # futures) result_modules = Inl e"
| "merge_modules (Inr None # futures) result_modules = merge_modules futures result_modules"
| "merge_modules (Inr (Some mdl) # futures) result_modules =
     merge_modules futures (dict_set (mod_path mdl) mdl result_modules)"

text \<open>The first loop of phase 5, over \<^verbatim>\<open>rust_files\<close>, for one file.\<close>

definition file_smells :: "(string \<Rightarrow> string option) \<Rightarrow> string \<Rightarrow> Smell list" where
  "file_smells read file_path =
     (case read file_path of
        None \<Rightarrow> []
      | Some content \<Rightarrow> if content = [] then [] else detect_smells content file_path)"

record AnalysisResult =
  result_modules :: "(string \<times> ModuleInfo) list"
  result_feature_usage :: "(string \<times> FeatureUsage) list"
  result_smells :: "Smell list"
  result_duplicates :: "DuplicateCluster list"

text \<open>
  The run. Beside the files it takes the hash function \<open>h\<close> of the process and the order
  \<open>completed\<close> in which the parses of \<open>rust_files\<close> complete. The matrix, the second loop of
  phase 5 and the duplicate detection go through \<^verbatim>\<open>result.modules\<close> in the order of that
  dictionary.
\<close>

definition analyze_files ::
  "(string \<Rightarrow> string option) \<Rightarrow> (string \<Rightarrow> string) \<Rightarrow> (string \<Rightarrow> int) \<Rightarrow> (Symbol \<Rightarrow> string)
   \<Rightarrow> string list \<Rightarrow> string list \<Rightarrow> py_error + AnalysisResult" where
  "analyze_files read crate_of h show rust_files completed =
     (case merge_modules (map (parse_file read crate_of) completed) [] of
        Inl e \<Rightarrow> Inl e
      | Inr parsed \<Rightarrow>
          Inr \<lparr>result_modules = parsed,
               result_feature_usage = build_feature_matrix parsed,
               result_smells =
                 concat (map (file_smells read) rust_files)
                 @ concat (map (\<lambda>(p, mdl). detect_imported_but_low_signal show mdl) parsed),
               result_duplicates = detect_duplicates read h parsed 5 (8 / 10)\<rparr>)"

text \<open>
  Two files with the same function under the same feature gate, public in the one and
  private in the other.
\<close>

definition gated_public_function :: string where
  \<open>gated_public_function =
     join [newline]
       [''#[cfg(feature = "x")]'', ''pub fn f() {'', ''let a = 1;'', ''let b = 2;'',
        ''let c = 3;'', ''a + b + c'', ''}'']\<close>

definition gated_private_function :: string where
  \<open>gated_private_function =
     join [newline]
       [''#[cfg(feature = "x")]'', ''fn f() {'', ''let a = 1;'', ''let b = 2;'',
        ''let c = 3;'', ''a + b + c'', ''}'']\<close>

definition two_files :: "string \<Rightarrow> string option" where
  "two_files path =
     (if path = ''a.rs'' then Some gated_public_function
      else if path = ''b.rs'' then Some gated_private_function
      else None)"

text \<open>
  The values of \<^verbatim>\<open>hash\<close> on the shingles of the two functions in two processes of
  CPython 3.11 (64 bit, \<^verbatim>\<open>siphash13\<close>), the one started with \<^verbatim>\<open>PYTHONHASHSEED=1\<close> and the other
  with \<^verbatim>\<open>PYTHONHASHSEED=2\<close>; a run over the two files hashes no other string.
\<close>

definition hashes_of_seed_1 :: "(string \<times> int) list" where
  "hashes_of_seed_1 =
     [(''pub fn f()'', - 2468428664284880251),
      (''fn f() {'', 2871461693628217381),
      (''f() { let'', - 7311459467933487285),
      (''{ let a'', 9135292643405098405),
      (''let a ='', 8212894849598729250),
      (''a = 1;'', - 1783505105633594085),
      (''= 1; let'', - 6304066460649585610),
      (''1; let b'', 3920578733972668141),
      (''let b ='', 2187486385508946269),
      (''b = 2;'', 591375961788399237),
      (''= 2; let'', - 8699415602126999649),
      (''2; let c'', - 5856014055110993127),
      (''let c ='', 4343430004017999869),
      (''c = 3;'', 2117095184906123627),
      (''= 3; a'', 1958031119124672167),
      (''3; a +'', - 4661760227141722272),
      (''a + b'', 6561758560802167512),
      (''+ b +'', - 4021740523803338161),
      (''b + c'', 435597228230155244),
      (''+ c }'', 202096666825182759)]"

definition hashes_of_seed_2 :: "(string \<times> int) list" where
  "hashes_of_seed_2 =
     [(''pub fn f()'', 6276294466173734075),
      (''fn f() {'', 4638662078241041360),
      (''f() { let'', 3230261764821856247),
      (''{ let a'', - 3942860357989202284),
      (''let a ='', 6691687615623851998),
      (''a = 1;'', 8076782219596046637),
      (''= 1; let'', - 5891901395669461294),
      (''1; let b'', 5877191184476348336),
      (''let b ='', 406890990892943782),
      (''b = 2;'', - 6438399884004719504),
      (''= 2; let'', - 6993373659936424523),
      (''2; let c'', 1985057208627353848),
      (''let c ='', - 1504468304678832202),
      (''c = 3;'', - 160332303024184245),
      (''= 3; a'', 2865078101400842337),
      (''3; a +'', - 8258778333365441916),
      (''a + b'', - 740302110452141595),
      (''+ b +'', 2427842566519010680),
      (''b + c'', - 6986205813375067393),
      (''+ c }'', - 4515403282542409708)]"

definition hash_of :: "(string \<times> int) list \<Rightarrow> string \<Rightarrow> int" where
  "hash_of table t = (case map_of table t of None \<Rightarrow> 0 | Some v \<Rightarrow> v)"

text \<open>
  What two runs are compared by: the symbols that the matrix lists for each feature, and
  the places of each duplicate cluster.
\<close>

definition listed_symbols :: "AnalysisResult \<Rightarrow> (string \<times> (string \<times> string) list) list" where
  "listed_symbols r =
     map (\<lambda>(f, u). (f, map (\<lambda>s. (ref_file s, ref_name s)) (usage_symbols u)))
       (result_feature_usage r)"

definition listed_clusters :: "AnalysisResult \<Rightarrow> (string \<times> int) list list" where
  "listed_clusters r =
     map (\<lambda>c. map (\<lambda>l. (loc_file l, loc_line_start l)) (locations c)) (result_duplicates r)"

definition listed :: "AnalysisResult \<Rightarrow> (string \<times> (string \<times> string) list) list \<times> (string \<times> int) list list" where
  "listed r = (listed_symbols r, listed_clusters r)"

text \<open>Both files belong to one crate.\<close>

definition demo_crate :: "string \<Rightarrow> string" where
  "demo_crate file_path = ''demo''"

section \<open>Properties of the similarity\<close>

text \<open>
  C6. The similarity is symmetric, \<open>sim(A, B) = sim(B, A)\<close> for all sets, and
  \<open>sim(A, A) = 1.0\<close> for every non-empty set \<open>A\<close>.
\<close>

theorem jaccard_symmetric_and_reflexive:
  "jaccard_similarity A B = jaccard_similarity B A
   \<and> (A \<noteq> {||} \<longrightarrow> jaccard_similarity A A = 1)"
proof
  show "jaccard_similarity A B = jaccard_similarity B A"
    by (simp add: jaccard_similarity_def inf_commute sup_commute disj_commute)
next
  show "A \<noteq> {||} \<longrightarrow> jaccard_similarity A A = 1"
  proof
    assume ne: "A \<noteq> {||}"
    then have "fcard A \<noteq> 0" by simp
    with ne show "jaccard_similarity A A = 1"
      by (simp add: jaccard_similarity_def Let_def)
  qed
qed

theorem jaccard_symmetric_and_reflexive_witness:
  "jaccard_similarity {|1::int, 2|} {|2, 3|} = jaccard_similarity {|2, 3|} {|1::int, 2|}
   \<and> {|1::int, 2|} \<noteq> {||} \<and> jaccard_similarity {|1::int, 2|} {|1, 2|} = 1"
  using jaccard_symmetric_and_reflexive [of "{|1::int, 2|}" "{|2, 3|}"]
  by simp

text \<open>
  C9. When either argument is the empty set the similarity is \<open>0.0\<close>; in particular
  \<open>sim(\<emptyset>, \<emptyset>)\<close> is \<open>0.0\<close> and not \<open>1.0\<close>, so the identity \<open>sim(A, A) = 1.0\<close>
  stops at the empty set.
\<close>

theorem jaccard_empty_is_zero:
  "((A :: 'a fset) = {||} \<or> B = {||} \<longrightarrow> jaccard_similarity A B = 0)
   \<and> jaccard_similarity ({||} :: 'a fset) {||} = 0
   \<and> jaccard_similarity ({||} :: 'a fset) {||} \<noteq> 1"
  by (simp add: jaccard_similarity_def)

theorem jaccard_empty_is_zero_witness:
  "({||} = ({||} :: int fset) \<or> {|5::int|} = {||})
   \<and> jaccard_similarity {||} {|5::int|} = 0
   \<and> jaccard_similarity ({||} :: int fset) {||} \<noteq> 1"
  using jaccard_empty_is_zero [of "{||} :: int fset" "{|5::int|}"]
  by simp

section \<open>Properties of the feature matrix\<close>

lemma map_of_matrix_update:
  "map_of (matrix_update f g m) k =
     (if k = f then Some (g (case map_of m f of None \<Rightarrow> default_entry | Some v \<Rightarrow> v))
      else map_of m k)"
  by (induction m) auto

lemma files_of_update:
  assumes "\<And>e. files (g e) = finsert p (files e)"
  shows "files_of (matrix_update f g m) k =
           (if k = f then finsert p (files_of m f) else files_of m k)"
  using assms
  by (auto simp: files_of_def map_of_matrix_update default_entry_def split: option.splits)

lemma keys_matrix_update: "fst ` set (matrix_update f g m) = insert f (fst ` set m)"
  by (induction m) force+

lemma files_of_add_gates:
  "files_of (add_gates c p gs m) k =
     (if k \<in> feature ` set gs then finsert p (files_of m k) else files_of m k)"
  by (induction gs arbitrary: m) (auto simp: files_of_update)

lemma files_of_add_symbol_features:
  "files_of (add_symbol_features c p s fs m) k =
     (if k \<in> set fs then finsert p (files_of m k) else files_of m k)"
  by (induction fs arbitrary: m) (auto simp: files_of_update)

lemma files_of_add_symbols:
  "files_of (add_symbols c p ss m) k =
     (if \<exists>s \<in> set ss. k \<in> set (cfg_features s) then finsert p (files_of m k)
      else files_of m k)"
  by (induction ss arbitrary: m) (auto simp: files_of_add_symbol_features)

lemma files_of_one_module:
  "files_of (add_symbols c p (symbols mdl) (add_gates c p (feature_gates mdl) m)) k =
     (if references mdl k then finsert p (files_of m k) else files_of m k)"
  by (simp add: files_of_add_symbols files_of_add_gates references_def)

lemma referencing_files_Cons:
  "referencing_files ((p, mdl) # ms) k =
     (if references mdl k then insert p (referencing_files ms k) else referencing_files ms k)"
  by (auto simp: referencing_files_def)

lemma referencing_files_Nil: "referencing_files [] k = {}"
  by (simp add: referencing_files_def)

lemma files_of_add_modules:
  "fset (files_of (add_modules ms m) k) = fset (files_of m k) \<union> referencing_files ms k"
proof (induction ms arbitrary: m)
  case Nil
  show ?case by (simp add: referencing_files_Nil)
next
  case (Cons a ms)
  obtain p mdl where a: "a = (p, mdl)" by (cases a)
  show ?case
    unfolding a add_modules.simps Cons.IH files_of_one_module referencing_files_Cons
    by auto
qed

lemma keys_add_gates: "fst ` set (add_gates c p gs m) = fst ` set m \<union> feature ` set gs"
  by (induction gs arbitrary: m) (auto simp: keys_matrix_update)

lemma keys_add_symbol_features:
  "fst ` set (add_symbol_features c p s fs m) = fst ` set m \<union> set fs"
  by (induction fs arbitrary: m) (auto simp: keys_matrix_update)

lemma keys_add_symbols:
  "fst ` set (add_symbols c p ss m) = fst ` set m \<union> (\<Union>s \<in> set ss. set (cfg_features s))"
  by (induction ss arbitrary: m) (auto simp: keys_add_symbol_features)

lemma keys_one_module:
  "fst ` set (add_symbols c p (symbols mdl) (add_gates c p (feature_gates mdl) m))
     = fst ` set m \<union> {f. references mdl f}"
  by (auto simp: keys_add_symbols keys_add_gates references_def)

lemma keys_add_modules:
  "fst ` set (add_modules ms m) = fst ` set m \<union> {f. referencing_files ms f \<noteq> {}}"
proof (induction ms arbitrary: m)
  case Nil
  show ?case by (simp add: referencing_files_Nil)
next
  case (Cons a ms)
  obtain p mdl where a: "a = (p, mdl)" by (cases a)
  show ?case
    unfolding a add_modules.simps Cons.IH keys_one_module referencing_files_Cons
    by auto
qed

lemma map_of_build_feature_matrix:
  "map_of (build_feature_matrix modules) f =
     map_option to_usage (map_of (add_modules modules []) f)"
  unfolding build_feature_matrix_def by (simp add: map_of_map)

text \<open>
  C8. In the matrix of \<^verbatim>\<open>build_feature_matrix\<close>, a feature that is referenced in \<open>N\<close> distinct
  files (the files of its file set: those with a gate on the feature or a symbol annotated
  with it) has an entry, and the \<open>spread\<close> of the entry is \<open>N\<close>.
\<close>

theorem spread_is_number_of_files:
  assumes "referencing_files modules f \<noteq> {}"
  shows "\<exists>e. map_of (build_feature_matrix modules) f = Some e
             \<and> fset (usage_files e) = referencing_files modules f
             \<and> spread e = card (referencing_files modules f)"
proof -
  from assms have "f \<in> fst ` set (add_modules modules [])"
    by (simp add: keys_add_modules)
  then obtain d where d: "map_of (add_modules modules []) f = Some d"
    by (metis domD dom_map_of_conv_image_fst)
  have fs: "fset (files d) = referencing_files modules f"
    using files_of_add_modules [of modules "[]" f] d by (simp add: files_of_def)
  have "map_of (build_feature_matrix modules) f = Some (to_usage d)"
    by (simp add: map_of_build_feature_matrix d)
  moreover have "fset (usage_files (to_usage d)) = referencing_files modules f"
    by (simp add: to_usage_def fs)
  moreover have "spread (to_usage d) = card (referencing_files modules f)"
    by (simp add: to_usage_def fcard.rep_eq fs)
  ultimately show ?thesis by blast
qed

theorem spread_is_number_of_files_witness:
  "referencing_files fm_example ''x'' \<noteq> {}
   \<and> card (referencing_files fm_example ''x'') = 2
   \<and> (\<exists>e. map_of (build_feature_matrix fm_example) ''x'' = Some e
          \<and> fset (usage_files e) = referencing_files fm_example ''x''
          \<and> spread e = card (referencing_files fm_example ''x''))"
proof -
  have r: "referencing_files fm_example ''x'' = {''a.rs'', ''b.rs''}"
    by (simp add: fm_example_def referencing_files_Cons referencing_files_Nil references_def)
  have ne: "referencing_files fm_example ''x'' \<noteq> {}"
    by (simp add: r)
  have c: "card (referencing_files fm_example ''x'') = 2"
    by (simp add: r)
  from ne c spread_is_number_of_files [OF ne] show ?thesis by blast
qed

section \<open>Properties of the cycle detection\<close>












section \<open>Properties of the structural extraction\<close>

lemmas regex_eval =
  finditer_def match_at_def re_sub_def Plus_def Opt_def is_space_def is_word_def is_digit_def


















text \<open>
  The extraction raises exactly when a feature gate starts on the last line of the
  content: \<^verbatim>\<open>line_num\<close> counts from one, so the guard \<^verbatim>\<open>line_num <= len(lines)\<close> lets the
  index \<^verbatim>\<open>len(lines)\<close> through.
\<close>

lemma collect_raises:
  "collect f xs = Inl IndexError \<longleftrightarrow> (\<exists>x \<in> set xs. f x = Inl IndexError)"
proof (induction xs)
  case Nil
  show ?case by simp
next
  case (Cons x xs)
  show ?case
  proof (cases "f x")
    case (Inl e)
    then show ?thesis by (cases e) simp
  next
    case (Inr y)
    with Cons.IH show ?thesis
      by (cases "collect f xs") (auto split: sum.splits)
  qed
qed

lemma make_gate_raises:
  "make_gate content file_path lines kind m = Inl IndexError
     \<longleftrightarrow> line_of content m = length lines"
  by (auto simp: make_gate_def gate_at_def py_index_def split: sum.splits if_splits)

lemma extract_symbols_regex_raises:
  "extract_symbols_regex content file_path crate = Inl IndexError \<longleftrightarrow>
     (\<exists>m \<in> set (finditer pattern_cfg_feature content)
            \<union> set (finditer pattern_cfg_any_feature content)
            \<union> set (finditer pattern_cfg_attr_feature content).
        line_of content m = length (split_on newline content))"
proof -
  have 1: "extract_symbols_regex content file_path crate = Inl IndexError
          \<longleftrightarrow> extract_gates content file_path (split_on newline content) = Inl IndexError"
    by (cases "extract_gates content file_path (split_on newline content)")
       (auto simp: extract_symbols_regex_def extract_module_def intro: py_error.exhaust)
  have 2: "extract_gates content file_path (split_on newline content) = Inl IndexError
          \<longleftrightarrow> (\<exists>x \<in> set (map (Pair ''cfg'') (finditer pattern_cfg_feature content)
                          @ map (Pair ''cfg_any'') (finditer pattern_cfg_any_feature content)
                          @ map (Pair ''cfg_attr'') (finditer pattern_cfg_attr_feature content)).
                 line_of content (snd x) = length (split_on newline content))"
    unfolding extract_gates_def collect_raises
    by (simp only: case_prod_beta make_gate_raises)
  show ?thesis
    unfolding 1 2 by force
qed

text \<open>
  C1. The structural extractor is to return a module for every content and never raise,
  also when a feature gate matches on the last line of the file. The code does not do
  so: on the one-line file \<^verbatim>\<open>#[cfg(feature = "x")]\<close> the gate is on line 1 of 1, the
  scope is read at \<^verbatim>\<open>lines[1]\<close>, and the extraction ends in \<^verbatim>\<open>IndexError\<close>.
\<close>

theorem extract_symbols_regex_raises_on_last_line_gate:
  "extract_symbols_regex gate_on_last_line ''src/lib.rs'' ''demo'' = Inl IndexError"
  by code_simp

section \<open>Properties of the smell detection\<close>

lemma pattern_smells_confidence:
  assumes "s \<in> set (pattern_smells file_path lines)"
  shows "confidence s = 9 / 10 \<and> smell_kind s \<in> pattern_kinds"
proof -
  from assms obtain entry where e: "entry \<in> set SMELL_PATTERNS"
    and s: "s \<in> set (smells_of_pattern file_path lines entry)"
    by (auto simp: pattern_smells_def)
  obtain kind rx sev msg where entry: "entry = (kind, rx, sev, msg)"
    by (cases entry) auto
  from s obtain i line where "s = pattern_smell kind sev msg file_path i line"
    by (auto simp: smells_of_pattern_def entry)
  then have "confidence s = 9 / 10" "smell_kind s = kind"
    by (simp_all add: pattern_smell_def)
  moreover have "kind \<in> pattern_kinds"
    using e unfolding entry pattern_kinds_def by force
  ultimately show ?thesis by simp
qed

lemma long_function_smells_confidence:
  "s \<in> set (long_function_smells file_path lines starts)
     \<Longrightarrow> confidence s = 1 \<and> smell_kind s = ''long_function''"
  by (induction file_path lines starts rule: long_function_smells.induct)
     (auto simp: long_function_smell_def split: if_splits)

lemma deep_nesting_smells_confidence:
  "s \<in> set (deep_nesting_smells file_path lines)
     \<Longrightarrow> confidence s = 8 / 10 \<and> smell_kind s = ''deep_nesting''"
  by (auto simp: deep_nesting_smells_def deep_nesting_smell_def)

lemma low_signal_smells_confidence:
  "s \<in> set (detect_imported_but_low_signal show mdl)
     \<Longrightarrow> confidence s = 6 / 10 \<and> smell_kind s = ''imported_but_low_signal''"
  by (auto simp: detect_imported_but_low_signal_def smells_of_usage_def low_signal_smell_def
           split: if_splits)

lemma other_kinds_are_no_pattern_kinds:
  "''long_function'' \<notin> pattern_kinds" "''deep_nesting'' \<notin> pattern_kinds"
  "''imported_but_low_signal'' \<notin> pattern_kinds"
  by (simp_all add: pattern_kinds_def SMELL_PATTERNS_def)

text \<open>
  C4, as amended. Every smell of the smell detector has a confidence in \<open>[0, 1]\<close>. A match
  of a line pattern carries 0.9; of the structural matches, deep nesting carries 0.8 and
  imported-but-low-signal 0.6, while a long function carries 1.0.
\<close>

theorem smell_confidence_by_kind:
  assumes "s \<in> set (detect_smells content file_path)
            \<union> set (detect_imported_but_low_signal show mdl)"
  shows "0 \<le> confidence s \<and> confidence s \<le> 1
         \<and> (smell_kind s \<in> pattern_kinds \<longleftrightarrow> confidence s = 9 / 10)
         \<and> (smell_kind s = ''deep_nesting'' \<longleftrightarrow> confidence s = 8 / 10)
         \<and> (smell_kind s = ''imported_but_low_signal'' \<longleftrightarrow> confidence s = 6 / 10)
         \<and> (smell_kind s = ''long_function'' \<longleftrightarrow> confidence s = 1)"
proof -
  let ?lines = "split_on newline content"
  from assms consider
      (pattern) "s \<in> set (pattern_smells file_path ?lines)"
    | (long) "s \<in> set (long_function_smells file_path ?lines (fn_starts ?lines))"
    | (deep) "s \<in> set (deep_nesting_smells file_path ?lines)"
    | (low) "s \<in> set (detect_imported_but_low_signal show mdl)"
    by (auto simp: detect_smells_def smells_of_lines_def)
  then show ?thesis
  proof cases
    case pattern
    from pattern_smells_confidence [OF this] show ?thesis
      using other_kinds_are_no_pattern_kinds by auto
  next
    case long
    from long_function_smells_confidence [OF this] show ?thesis
      using other_kinds_are_no_pattern_kinds by simp
  next
    case deep
    from deep_nesting_smells_confidence [OF this] show ?thesis
      using other_kinds_are_no_pattern_kinds by simp
  next
    case low
    from low_signal_smells_confidence [OF this] show ?thesis
      using other_kinds_are_no_pattern_kinds by simp
  qed
qed

lemma todo_smell_found: "todo_smell \<in> set (detect_smells todo_file ''a.rs'')"
  by code_simp

theorem smell_confidence_by_kind_witness:
  "todo_smell \<in> set (detect_smells todo_file ''a.rs'')
                \<union> set (detect_imported_but_low_signal sym_name small_module)
   \<and> 0 \<le> confidence todo_smell \<and> confidence todo_smell \<le> 1
   \<and> smell_kind todo_smell \<in> pattern_kinds \<and> confidence todo_smell = 9 / 10
   \<and> smell_kind todo_smell \<noteq> ''long_function'' \<and> confidence todo_smell \<noteq> 1"
proof -
  have m: "todo_smell \<in> set (detect_smells todo_file ''a.rs'')
                       \<union> set (detect_imported_but_low_signal sym_name small_module)"
    using todo_smell_found by simp
  have c: "confidence todo_smell = 9 / 10" by (simp add: todo_smell_def)
  from smell_confidence_by_kind [OF m] c show ?thesis
    using m by simp
qed

text \<open>Lines without text start no function.\<close>

lemma empty_line_starts_no_function: "\<not> re_match pattern_fn_start []"
  by (simp add: re_match_def pattern_fn_start_def regex_eval)

lemma fn_starts_blank:
  "filter (\<lambda>(i, line). re_match pattern_fn_start line) (enumerate k (replicate n [])) = []"
  by (auto simp: filter_empty_conv enumerate_eq_zip empty_line_starts_no_function
           dest: set_zip_rightD)

lemma split_newlines: "split_on newline (replicate n newline) = [] # replicate n []"
  by (induction n) simp_all

lemma long_file_lines: "split_on newline long_file = ''fn f() {'' # replicate 100 []"
  by (simp add: long_file_def split_newlines)

lemma long_file_fn_starts: "fn_starts (''fn f() {'' # replicate 100 []) = [0]"
proof -
  have "re_match pattern_fn_start ''fn f() {''"
    by (simp add: re_match_def pattern_fn_start_def regex_eval)
  then show ?thesis
    by (simp add: fn_starts_def fn_starts_blank)
qed

text \<open>
  C4 as stated fails for the long-function smell: the function of 101 lines is reported
  with confidence 1.0, outside the range 0.6 to 0.8 of the claim.
\<close>

theorem long_function_confidence_is_one:
  "long_smell \<in> set (detect_smells long_file ''a.rs'')
   \<and> smell_kind long_smell = ''long_function''
   \<and> \<not> (6 / 10 \<le> confidence long_smell \<and> confidence long_smell \<le> 8 / 10)"
proof -
  have n: "str_int 101 = ''101''" by code_simp
  have c: "strip ''fn f() {'' = ''fn f() {''" by code_simp
  have "long_function_smells ''a.rs'' (''fn f() {'' # replicate 100 []) [0] = [long_smell]"
    by (simp add: long_function_smell_def long_smell_def n c)
  then have "long_smell \<in> set (detect_smells long_file ''a.rs'')"
    by (simp add: detect_smells_def smells_of_lines_def long_file_lines long_file_fn_starts)
  then show ?thesis by (simp add: long_smell_def)
qed

section \<open>Properties of the duplicate detection\<close>

text \<open>The candidates of the first stage span at least \<^verbatim>\<open>min_lines\<close> lines.\<close>

lemma all_candidates_Nil: "all_candidates [] = {}"
  by (simp add: all_candidates_def)

lemma all_candidates_Cons: "all_candidates ((sig, cs) # sigs) = set cs \<union> all_candidates sigs"
  by (simp add: all_candidates_def)

lemma all_candidates_append:
  "all_candidates (signature_append sig c sigs) = insert c (all_candidates sigs)"
  by (induction sigs) (auto simp: all_candidates_Nil all_candidates_Cons split: if_splits)

lemma candidate_of_span:
  assumes "candidate_of h min_lines file_path lines symbol = Some (sig, c)"
  shows "min_lines \<le> cand_line_end c - cand_line_start c + 1"
proof -
  from assms have "\<not> min (line_end symbol) (int (length lines)) - (line_start symbol - 1) < min_lines"
    and "cand_line_start c = line_start symbol" and "cand_line_end c = line_end symbol"
    by (auto simp: candidate_of_def candidate_with_def candidate_with_shingles_def
             split: if_splits)
  then show ?thesis by simp
qed

lemma add_symbol_candidates_span:
  assumes "\<forall>c \<in> all_candidates sigs. min_lines \<le> cand_line_end c - cand_line_start c + 1"
  shows "\<forall>c \<in> all_candidates (add_symbol_candidates h min_lines file_path lines syms sigs).
           min_lines \<le> cand_line_end c - cand_line_start c + 1"
  using assms
proof (induction syms arbitrary: sigs)
  case Nil
  then show ?case by simp
next
  case (Cons symbol syms)
  show ?case
  proof (cases "candidate_of h min_lines file_path lines symbol")
    case None
    with Cons show ?thesis by simp
  next
    case (Some a)
    obtain sig c where a: "a = (sig, c)" by (cases a)
    have "\<forall>c \<in> all_candidates (signature_append sig c sigs).
            min_lines \<le> cand_line_end c - cand_line_start c + 1"
      using Cons.prems candidate_of_span [OF Some [unfolded a]]
      by (simp add: all_candidates_append)
    from Cons.IH [OF this] show ?thesis by (simp add: Some a)
  qed
qed

lemma add_module_candidates_span:
  assumes "\<forall>c \<in> all_candidates sigs. min_lines \<le> cand_line_end c - cand_line_start c + 1"
  shows "\<forall>c \<in> all_candidates (add_module_candidates read h min_lines mods sigs).
           min_lines \<le> cand_line_end c - cand_line_start c + 1"
  using assms
proof (induction mods arbitrary: sigs)
  case Nil
  then show ?case by simp
next
  case (Cons a mods)
  obtain p mdl where a: "a = (p, mdl)" by (cases a)
  show ?case
    unfolding a add_module_candidates.simps
  proof (rule Cons.IH)
    show "\<forall>c \<in> all_candidates
               (case read (mod_path mdl) of
                  None \<Rightarrow> sigs
                | Some content \<Rightarrow>
                    if content = [] then sigs
                    else add_symbol_candidates h min_lines (mod_path mdl)
                           (split_on newline content) (symbols mdl) sigs).
            min_lines \<le> cand_line_end c - cand_line_start c + 1"
      using Cons.prems add_symbol_candidates_span [OF Cons.prems]
      by (simp split: option.splits)
  qed
qed

lemma key_of_make_cluster: "key_of_cluster (make_cluster c1 c2) = cluster_key c1 c2"
  by (simp add: key_of_cluster_def make_cluster_def cluster_key_def location_of_def)

lemma compare_pair_invariant:
  assumes "dup_invariant P st" "P c1" "P c2"
  shows "dup_invariant P (compare_pair th c1 c2 st)"
proof (cases "cand_file c1 \<noteq> cand_file c2
              \<and> th \<le> jaccard_similarity (cand_shingles c1) (cand_shingles c2)
              \<and> cluster_key c1 c2 \<notin> seen st")
  case False
  with assms(1) show ?thesis by (auto simp: compare_pair_def)
next
  case True
  then have st': "compare_pair th c1 c2 st
                    = \<lparr>seen = insert (cluster_key c1 c2) (seen st),
                       clusters = clusters st @ [make_cluster c1 c2]\<rparr>"
    by (simp add: compare_pair_def)
  have new: "cluster_key c1 c2 \<notin> key_of_cluster ` set (clusters st)"
    using True assms(1) by (auto simp: dup_invariant_def)
  have "pair_cluster P (make_cluster c1 c2)"
    using True assms(2,3) by (auto simp: pair_cluster_def)
  with assms(1) new show ?thesis
    unfolding st' dup_invariant_def by (auto simp: key_of_make_cluster)
qed

lemma compare_with_invariant:
  assumes "dup_invariant P st" "P c1" "\<forall>c \<in> set cs. P c"
  shows "dup_invariant P (compare_with th c1 cs st)"
  using assms by (induction cs arbitrary: st) (simp_all add: compare_pair_invariant)

lemma compare_candidates_invariant:
  assumes "dup_invariant P st" "\<forall>c \<in> set cs. P c"
  shows "dup_invariant P (compare_candidates th cs st)"
  using assms by (induction cs arbitrary: st) (simp_all add: compare_with_invariant)

lemma compare_signatures_invariant:
  assumes "dup_invariant P st" "\<forall>c \<in> all_candidates sigs. P c"
  shows "dup_invariant P (compare_signatures th sigs st)"
  using assms
proof (induction sigs arbitrary: st)
  case Nil
  then show ?case by simp
next
  case (Cons a sigs)
  obtain sig cs where a: "a = (sig, cs)" by (cases a)
  have cs: "\<forall>c \<in> set cs. P c" and rest: "\<forall>c \<in> all_candidates sigs. P c"
    using Cons.prems(2) by (auto simp: a all_candidates_Cons)
  have "dup_invariant P (if length cs < 2 then st else compare_candidates th cs st)"
    using Cons.prems(1) cs by (simp add: compare_candidates_invariant)
  from Cons.IH [OF this rest] show ?case by (simp add: a)
qed

lemma detect_duplicates_invariant:
  "dup_invariant (\<lambda>c. min_lines \<le> cand_line_end c - cand_line_start c + 1)
     (compare_signatures th (add_module_candidates read h min_lines modules [])
        \<lparr>seen = {}, clusters = []\<rparr>)"
proof (rule compare_signatures_invariant)
  show "dup_invariant (\<lambda>c. min_lines \<le> cand_line_end c - cand_line_start c + 1)
          \<lparr>seen = {}, clusters = []\<rparr>"
    by (simp add: dup_invariant_def)
  show "\<forall>c \<in> all_candidates (add_module_candidates read h min_lines modules []).
          min_lines \<le> cand_line_end c - cand_line_start c + 1"
    by (rule add_module_candidates_span) (simp add: all_candidates_Nil)
qed

lemma detect_duplicates_pairs:
  assumes "cl \<in> set (detect_duplicates read h modules min_lines th)"
  shows "pair_cluster (\<lambda>c. min_lines \<le> cand_line_end c - cand_line_start c + 1) cl"
  using assms detect_duplicates_invariant [of min_lines th read h modules]
  by (simp add: detect_duplicates_def dup_invariant_def)

lemma detect_duplicates_keys:
  "distinct (map key_of_cluster (detect_duplicates read h modules min_lines th))"
  using detect_duplicates_invariant [of min_lines th read h modules]
  by (simp add: detect_duplicates_def dup_invariant_def)

text \<open>Two clusters of the same two places have the same key.\<close>

lemma sort_two: "sort [a, b] = sort [b, a]" for a b :: string
  by auto

lemma pair_cluster_key:
  assumes "pair_cluster P cl" "pair_cluster P cl'" "places cl = places cl'"
  shows "key_of_cluster cl = key_of_cluster cl'"
proof -
  from assms(1) obtain c1 c2 where cl: "cl = make_cluster c1 c2"
    by (auto simp: pair_cluster_def)
  from assms(2) obtain d1 d2 where cl': "cl' = make_cluster d1 d2"
    by (auto simp: pair_cluster_def)
  have "{(cand_file c1, cand_line_start c1), (cand_file c2, cand_line_start c2)}
          = {(cand_file d1, cand_line_start d1), (cand_file d2, cand_line_start d2)}"
    using assms(3) by (simp add: places_def cl cl' make_cluster_def location_of_def)
  then consider
      "(cand_file c1, cand_line_start c1) = (cand_file d1, cand_line_start d1)"
      "(cand_file c2, cand_line_start c2) = (cand_file d2, cand_line_start d2)"
    | "(cand_file c1, cand_line_start c1) = (cand_file d2, cand_line_start d2)"
      "(cand_file c2, cand_line_start c2) = (cand_file d1, cand_line_start d1)"
    by (auto simp: doubleton_eq_iff)
  then show ?thesis
  proof cases
    case 1
    then show ?thesis by (simp add: cl cl' key_of_make_cluster cluster_key_def)
  next
    case 2
    then show ?thesis
      using sort_two by (simp add: cl cl' key_of_make_cluster cluster_key_def)
  qed
qed

lemma three_files_clusters:
  "map (\<lambda>c. map (\<lambda>l. (loc_file l, loc_line_start l, loc_line_end l)) (locations c))
     (detect_duplicates three_files sample_hash three_modules 5 (8 / 10))
   = [[(''a.rs'', 1, 5), (''b.rs'', 1, 5)], [(''a.rs'', 1, 5), (''c.rs'', 1, 5)],
      [(''b.rs'', 1, 5), (''c.rs'', 1, 5)]]"
  by code_simp

lemma three_files_first:
  "hd (detect_duplicates three_files sample_hash three_modules 5 (8 / 10))
     \<in> set (detect_duplicates three_files sample_hash three_modules 5 (8 / 10))"
  and three_files_length:
  "length (detect_duplicates three_files sample_hash three_modules 5 (8 / 10)) = 3"
proof -
  have "length (map (\<lambda>c. map (\<lambda>l. (loc_file l, loc_line_start l, loc_line_end l)) (locations c))
                  (detect_duplicates three_files sample_hash three_modules 5 (8 / 10))) = 3"
    unfolding three_files_clusters by simp
  then show l: "length (detect_duplicates three_files sample_hash three_modules 5 (8 / 10)) = 3"
    by simp
  then have "detect_duplicates three_files sample_hash three_modules 5 (8 / 10) \<noteq> []"
    by auto
  then show "hd (detect_duplicates three_files sample_hash three_modules 5 (8 / 10))
               \<in> set (detect_duplicates three_files sample_hash three_modules 5 (8 / 10))"
    by (rule hd_in_set)
qed

text \<open>
  C2, as amended. In every run of \<^verbatim>\<open>detect_duplicates\<close>, each reported cluster has two
  locations in different files, each location spans at least the minimum body length,
  and no two reported clusters consist of the same two places (file and start line). One
  place may be part of several clusters.
\<close>

theorem duplicate_clusters_pairwise:
  "(\<forall>cl \<in> set (detect_duplicates read h modules min_lines th).
      (\<exists>l1 l2. locations cl = [l1, l2] \<and> loc_file l1 \<noteq> loc_file l2)
      \<and> (\<forall>l \<in> set (locations cl). min_lines \<le> span l))
   \<and> distinct (map places (detect_duplicates read h modules min_lines th))"
proof
  show "\<forall>cl \<in> set (detect_duplicates read h modules min_lines th).
          (\<exists>l1 l2. locations cl = [l1, l2] \<and> loc_file l1 \<noteq> loc_file l2)
          \<and> (\<forall>l \<in> set (locations cl). min_lines \<le> span l)"
  proof
    fix cl
    assume "cl \<in> set (detect_duplicates read h modules min_lines th)"
    then obtain c1 c2 where cl: "cl = make_cluster c1 c2"
      and "min_lines \<le> cand_line_end c1 - cand_line_start c1 + 1"
      and "min_lines \<le> cand_line_end c2 - cand_line_start c2 + 1"
      and "cand_file c1 \<noteq> cand_file c2"
      using detect_duplicates_pairs unfolding pair_cluster_def by blast
    then show "(\<exists>l1 l2. locations cl = [l1, l2] \<and> loc_file l1 \<noteq> loc_file l2)
               \<and> (\<forall>l \<in> set (locations cl). min_lines \<le> span l)"
      by (simp add: make_cluster_def location_of_def span_def)
  qed
next
  let ?cs = "detect_duplicates read h modules min_lines th"
  have d: "distinct ?cs" and i: "inj_on key_of_cluster (set ?cs)"
    using detect_duplicates_keys [of read h modules min_lines th]
    by (simp_all add: distinct_map)
  have "inj_on places (set ?cs)"
  proof (rule inj_onI)
    fix x y
    assume x: "x \<in> set ?cs" and y: "y \<in> set ?cs" and p: "places x = places y"
    have "key_of_cluster x = key_of_cluster y"
      using detect_duplicates_pairs [OF x] detect_duplicates_pairs [OF y] p
      by (rule pair_cluster_key)
    with i x y show "x = y" by (simp add: inj_on_def)
  qed
  with d show "distinct (map places ?cs)" by (simp add: distinct_map)
qed

theorem duplicate_clusters_pairwise_witness:
  "map (\<lambda>c. map (\<lambda>l. (loc_file l, loc_line_start l, loc_line_end l)) (locations c))
     (detect_duplicates three_files sample_hash three_modules 5 (8 / 10))
   = [[(''a.rs'', 1, 5), (''b.rs'', 1, 5)], [(''a.rs'', 1, 5), (''c.rs'', 1, 5)],
      [(''b.rs'', 1, 5), (''c.rs'', 1, 5)]]
   \<and> (\<exists>l1 l2. locations (hd (detect_duplicates three_files sample_hash three_modules 5 (8 / 10)))
                 = [l1, l2] \<and> loc_file l1 \<noteq> loc_file l2 \<and> 5 \<le> span l1 \<and> 5 \<le> span l2)
   \<and> distinct (map places (detect_duplicates three_files sample_hash three_modules 5 (8 / 10)))"
proof -
  note t = duplicate_clusters_pairwise [of three_files sample_hash three_modules 5 "8 / 10"]
  from bspec [OF conjunct1 [OF t] three_files_first]
  have "\<exists>l1 l2. locations (hd (detect_duplicates three_files sample_hash three_modules 5 (8 / 10)))
                  = [l1, l2] \<and> loc_file l1 \<noteq> loc_file l2 \<and> 5 \<le> span l1 \<and> 5 \<le> span l2"
    by auto
  with three_files_clusters conjunct2 [OF t] show ?thesis by (intro conjI)
qed

text \<open>
  C2 as stated fails in its last part: of three files with the same function, the place
  \<open>a.rs:1\<close> is reported in the first cluster and in the second.
\<close>

theorem place_in_two_clusters:
  "map (\<lambda>c. map (\<lambda>l. (loc_file l, loc_line_start l)) (locations c))
     (detect_duplicates three_files sample_hash three_modules 5 (8 / 10))
   = [[(''a.rs'', 1), (''b.rs'', 1)], [(''a.rs'', 1), (''c.rs'', 1)],
      [(''b.rs'', 1), (''c.rs'', 1)]]"
proof -
  have "map (\<lambda>c. map (\<lambda>l. (loc_file l, loc_line_start l)) (locations c))
          (detect_duplicates three_files sample_hash three_modules 5 (8 / 10))
        = map (map (\<lambda>x. (fst x, fst (snd x))))
            (map (\<lambda>c. map (\<lambda>l. (loc_file l, loc_line_start l, loc_line_end l)) (locations c))
               (detect_duplicates three_files sample_hash three_modules 5 (8 / 10)))"
    by (simp add: comp_def)
  then show ?thesis unfolding three_files_clusters by simp
qed

text \<open>
  C10. Every cluster that \<^verbatim>\<open>detect_duplicates\<close> produces has exactly two locations.
\<close>

theorem clusters_have_two_locations:
  "\<forall>cl \<in> set (detect_duplicates read h modules min_lines th). length (locations cl) = 2"
proof
  fix cl
  assume "cl \<in> set (detect_duplicates read h modules min_lines th)"
  then obtain c1 c2 where "cl = make_cluster c1 c2"
    using detect_duplicates_pairs unfolding pair_cluster_def by blast
  then show "length (locations cl) = 2" by (simp add: make_cluster_def)
qed

theorem clusters_have_two_locations_witness:
  "length (detect_duplicates three_files sample_hash three_modules 5 (8 / 10)) = 3
   \<and> length (locations (hd (detect_duplicates three_files sample_hash three_modules 5 (8 / 10))))
       = 2"
  using three_files_length
    bspec [OF clusters_have_two_locations [of three_files sample_hash three_modules 5 "8 / 10"]
              three_files_first]
  by (intro conjI)

section \<open>Properties of the run\<close>

text \<open>
  Three runs over the two files: the first with the hash function of one process and the
  parses completing in the order of \<^verbatim>\<open>rust_files\<close>, the second with the parses completing in
  the other order, the third with the hash function of another process.
\<close>

lemma first_run:
  "map_sum id listed
     (analyze_files two_files demo_crate (hash_of hashes_of_seed_1) sym_name
        [''a.rs'', ''b.rs''] [''a.rs'', ''b.rs''])
   = Inr ([(''x'', [(''a.rs'', ''f''), (''b.rs'', ''f'')])], [])"
  by code_simp

lemma run_in_other_order:
  "map_sum id listed
     (analyze_files two_files demo_crate (hash_of hashes_of_seed_1) sym_name
        [''a.rs'', ''b.rs''] [''b.rs'', ''a.rs''])
   = Inr ([(''x'', [(''b.rs'', ''f''), (''a.rs'', ''f'')])], [])"
  by code_simp

lemma run_with_other_hash:
  "map_sum id listed
     (analyze_files two_files demo_crate (hash_of hashes_of_seed_2) sym_name
        [''a.rs'', ''b.rs''] [''a.rs'', ''b.rs''])
   = Inr ([(''x'', [(''a.rs'', ''f''), (''b.rs'', ''f'')])], [[(''a.rs'', 2), (''b.rs'', 2)]])"
  by code_simp

text \<open>
  C3. Runs of the analysis over the same two files do not give the same outputs. With the
  parses completing in the order \<open>a.rs\<close>, \<open>b.rs\<close> the feature matrix lists the symbols of
  the feature \<open>x\<close> in that order, and with the parses completing in the other order it
  lists them in the other order. With the hash function of the one process no duplicate
  is reported, and with the hash function of the other process the two functions are
  reported as a duplicate cluster.
\<close>

theorem runs_over_unchanged_input_differ:
  "map_sum id listed
     (analyze_files two_files demo_crate (hash_of hashes_of_seed_1) sym_name
        [''a.rs'', ''b.rs''] [''a.rs'', ''b.rs''])
   = Inr ([(''x'', [(''a.rs'', ''f''), (''b.rs'', ''f'')])], [])
   \<and> map_sum id listed
       (analyze_files two_files demo_crate (hash_of hashes_of_seed_1) sym_name
          [''a.rs'', ''b.rs''] [''b.rs'', ''a.rs''])
     = Inr ([(''x'', [(''b.rs'', ''f''), (''a.rs'', ''f'')])], [])
   \<and> map_sum id listed
       (analyze_files two_files demo_crate (hash_of hashes_of_seed_2) sym_name
          [''a.rs'', ''b.rs''] [''a.rs'', ''b.rs''])
     = Inr ([(''x'', [(''a.rs'', ''f''), (''b.rs'', ''f'')])], [[(''a.rs'', 2), (''b.rs'', 2)]])"
  using first_run run_in_other_order run_with_other_hash by (intro conjI)

end
